theory Spec2Isabelle
  imports Complex_Main "HOL-Library.AList" "HOL-Library.Sublist" "HOL-Library.Log_Nat"
begin

section \<open>Python values and dictionaries\<close>

text \<open>
  The documents handled by the backend are Python dictionaries with string keys. A value
  is one of the kinds the code inspects: \<open>None\<close>, a bool, an int, a float (as a
  rational), a string, a \<open>date\<close> or a \<open>datetime\<close> object (by its proleptic
  Gregorian ordinal, \<open>date.toordinal()\<close>), a list or a nested dictionary.
\<close>

datatype pyval =
    PNone
  | PBool bool
  | PInt int
  | PFloat rat
  | PStr string
  | PDate int
  | PDatetime int
  | PList "pyval list"
  | PDict "(string \<times> pyval) list"

type_synonym pydict = "string \<rightharpoonup> pyval"

text \<open>Python truthiness, as used by \<open>if x:\<close>, \<open>not x\<close> and \<open>x or y\<close>.\<close>

fun truthy :: "pyval \<Rightarrow> bool" where
  "truthy PNone = False"
| "truthy (PBool b) = b"
| "truthy (PInt i) = (i \<noteq> 0)"
| "truthy (PFloat r) = (r \<noteq> 0)"
| "truthy (PStr s) = (s \<noteq> [])"
| "truthy (PDate d) = True"
| "truthy (PDatetime d) = True"
| "truthy (PList xs) = (xs \<noteq> [])"
| "truthy (PDict kvs) = (kvs \<noteq> [])"

text \<open>\<open>d.get(k)\<close> and \<open>d.get(k, default)\<close>.\<close>

definition py_get :: "pydict \<Rightarrow> string \<Rightarrow> pyval" where
  "py_get d k = (case d k of None \<Rightarrow> PNone | Some v \<Rightarrow> v)"

definition py_get_default :: "pydict \<Rightarrow> string \<Rightarrow> pyval \<Rightarrow> pyval" where
  "py_get_default d k dflt = (case d k of None \<Rightarrow> dflt | Some v \<Rightarrow> v)"


datatype py_error =
    ValueError
  | TypeError
  | AttributeError
  | OverflowError
  | KeyError
  | NotFound

text \<open>\<open>s.replace('Z', '+00:00')\<close>: every occurrence of the character is replaced.\<close>

definition replace_Z :: "string \<Rightarrow> string" where
  "replace_Z s = concat (map (\<lambda>c. if c = CHR ''Z'' then ''+00:00'' else [c]) s)"


section \<open>Status calculator (services/gmail/commitments/status\_calculator.py)\<close>

text \<open>
  \<open>recalculate_status(commitment, today)\<close>. Dates are ordinals, so
  \<open>(today - deadline_date).days\<close> is integer subtraction. The library call
  \<open>datetime.fromisoformat(s).date()\<close> is the parameter \<open>fromisoformat_date\<close>:
  \<open>None\<close> stands for the \<open>ValueError\<close> it raises. The caller supplies \<open>today\<close>
  (the source reads the clock when it is omitted).

  \<open>deadline_date_of\<close> is the body of the \<open>try\<close> up to the comparison: a string is
  parsed, a \<open>date\<close> is taken as it is, and any other value gives \<open>None\<close>. A
  \<open>datetime\<close> is an instance of \<open>date\<close>, and ordering it against the date
  \<open>today\<close> raises \<open>TypeError\<close>.
\<close>

definition deadline_date_of ::
  "(string \<Rightarrow> int option) \<Rightarrow> pyval \<Rightarrow> py_error + int option" where
  "deadline_date_of fromisoformat_date deadline_iso =
     (case deadline_iso of
        PStr s \<Rightarrow> (case fromisoformat_date (replace_Z s) of
                     None \<Rightarrow> Inl ValueError
                   | Some d \<Rightarrow> Inr (Some d))
      | PDate d \<Rightarrow> Inr (Some d)
      | PDatetime d \<Rightarrow> Inl TypeError
      | _ \<Rightarrow> Inr None)"

definition status_fields ::
  "(string \<Rightarrow> int option) \<Rightarrow> pyval \<Rightarrow> int \<Rightarrow> string \<times> int \<times> bool" where
  "status_fields fromisoformat_date deadline_iso today =
     (if truthy deadline_iso then
        (case deadline_date_of fromisoformat_date deadline_iso of
           Inl e \<Rightarrow> (''no_deadline'', 0, False)
         | Inr None \<Rightarrow> (''no_deadline'', 0, False)
         | Inr (Some deadline_date) \<Rightarrow>
             if deadline_date < today then (''overdue'', today - deadline_date, True)
             else if deadline_date = today then (''due_today'', 0, False)
             else (''active'', 0, False))
      else (''no_deadline'', 0, False))"

definition recalculate_status ::
  "(string \<Rightarrow> int option) \<Rightarrow> pydict \<Rightarrow> int \<Rightarrow> pydict" where
  "recalculate_status fromisoformat_date commitment today =
     (let deadline_iso = py_get commitment ''deadline_iso'' in
      if truthy (py_get commitment ''completed'') then
        (let c1 = commitment(''status'' \<mapsto>
                    py_get_default commitment ''status'' (PStr ''no_deadline''));
             c2 = c1(''days_overdue'' \<mapsto> py_get_default c1 ''days_overdue'' (PInt 0));
             c3 = c2(''overdue_flag'' \<mapsto> py_get_default c2 ''overdue_flag'' (PBool False))
         in c3)
      else
        (case status_fields fromisoformat_date deadline_iso today of
           (status, days_overdue, overdue_flag) \<Rightarrow>
             commitment(''status'' \<mapsto> PStr status,
                        ''days_overdue'' \<mapsto> PInt days_overdue,
                        ''overdue_flag'' \<mapsto> PBool overdue_flag)))"

text \<open>A parser for the examples: it knows two ISO strings and rejects everything else.\<close>

definition sample_fromisoformat :: "string \<Rightarrow> int option" where
  "sample_fromisoformat s =
     (if s = ''2025-11-22'' then Some 739577
      else if s = ''2025-11-24T09:00:00+00:00'' then Some 739579
      else None)"


section \<open>Deadline parser (services/gmail/deadline\_parser.py)\<close>

subsection \<open>Strings\<close>

text \<open>
  Characters are bytes here, so the string operations are the ASCII part of Python's:
  \<open>lower()\<close> maps \<open>A\<close>..\<open>Z\<close>, and whitespace is what \<open>str.isspace\<close>
  accepts below 128.
\<close>

definition lower_char :: "char \<Rightarrow> char" where
  "lower_char c =
     (case map_of (zip ''ABCDEFGHIJKLMNOPQRSTUVWXYZ'' ''abcdefghijklmnopqrstuvwxyz'') c of
        Some l \<Rightarrow> l
      | None \<Rightarrow> c)"

definition lower :: "string \<Rightarrow> string" where
  "lower s = map lower_char s"

definition is_space :: "char \<Rightarrow> bool" where
  "is_space c = (c \<in> set [CHR '' '', CHR 0x09, CHR 0x0A, CHR 0x0B, CHR 0x0C, CHR 0x0D,
                            CHR 0x1C, CHR 0x1D, CHR 0x1E, CHR 0x1F])"

definition is_digit :: "char \<Rightarrow> bool" where
  "is_digit c = (c \<in> set ''0123456789'')"

definition strip :: "string \<Rightarrow> string" where
  "strip s = rev (dropWhile is_space (rev (dropWhile is_space s)))"

text \<open>\<open>sub in s\<close> on strings.\<close>

fun contains :: "string \<Rightarrow> string \<Rightarrow> bool" where
  "contains sub [] = (sub = [])"
| "contains sub (c # cs) = (prefix sub (c # cs) \<or> contains sub cs)"

text \<open>\<open>_normalize(text)\<close>: \<open>(text or "").strip().lower()\<close>.\<close>

definition normalize_txt :: "string \<Rightarrow> string" where
  "normalize_txt text = lower (strip text)"

subsection \<open>Regular expressions\<close>

text \<open>
  The patterns of the parser use literal alternatives, \<open>\s+\<close>, \<open>\s*\<close>,
  \<open>\d+\<close>, optional parts and capture groups. \<open>rmatch\<close> lists the ways a pattern
  matches at the start of a string, in the order a backtracking matcher tries them
  (alternatives left to right, repetition and options greedy); each result is the
  unread rest of the string with the groups captured so far. \<open>re_search\<close> is
  \<open>re.search\<close>: the first result at the leftmost position that has one.
\<close>

datatype cclass = Space | Digit

fun in_class :: "cclass \<Rightarrow> char \<Rightarrow> bool" where
  "in_class Space c = is_space c"
| "in_class Digit c = is_digit c"

datatype regex =
    Words "string list"
  | Plus cclass
  | Star cclass
  | Seq regex regex
  | Opt regex
  | Group nat regex

type_synonym captures = "(nat \<times> string) list"

fun rmatch :: "regex \<Rightarrow> string \<times> captures \<Rightarrow> (string \<times> captures) list" where
  "rmatch (Words ws) (s, caps) =
     concat (map (\<lambda>w. if prefix w s then [(drop (length w) s, caps)] else []) ws)"
| "rmatch (Plus cl) (s, caps) =
     map (\<lambda>k. (drop k s, caps)) (rev [1 ..< Suc (length (takeWhile (in_class cl) s))])"
| "rmatch (Star cl) (s, caps) =
     map (\<lambda>k. (drop k s, caps)) (rev [0 ..< Suc (length (takeWhile (in_class cl) s))])"
| "rmatch (Seq a b) st = concat (map (rmatch b) (rmatch a st))"
| "rmatch (Opt a) st = rmatch a st @ [st]"
| "rmatch (Group i a) (s, caps) =
     map (\<lambda>(rest, cp). (rest, (i, take (length s - length rest) s) # cp)) (rmatch a (s, caps))"

fun re_search :: "regex \<Rightarrow> string \<Rightarrow> captures option" where
  "re_search r [] = (case rmatch r ([], []) of [] \<Rightarrow> None | x # _ \<Rightarrow> Some (snd x))"
| "re_search r (c # cs) =
     (case rmatch r (c # cs, []) of [] \<Rightarrow> re_search r cs | x # _ \<Rightarrow> Some (snd x))"

text \<open>\<open>m.group(i)\<close>: \<open>None\<close> when the group took no part in the match.\<close>

definition group :: "captures \<Rightarrow> nat \<Rightarrow> string option" where
  "group caps i = map_of caps i"

fun seqs :: "regex list \<Rightarrow> regex" where
  "seqs [] = Words [[]]"
| "seqs [r] = r"
| "seqs (r # rs) = Seq r (seqs rs)"

text \<open>\<open>within\s+\d+\s*(hour|hr|minute|min)\<close>\<close>

definition rx_within_hours :: regex where
  "rx_within_hours =
     seqs [Words [''within''], Plus Space, Plus Digit, Star Space,
           Group 1 (Words [''hour'', ''hr'', ''minute'', ''min''])]"

text \<open>\<open>in\s+\d+\s*(hour|hr|minute|min)\<close>\<close>

definition rx_in_hours :: regex where
  "rx_in_hours =
     seqs [Words [''in''], Plus Space, Plus Digit, Star Space,
           Group 1 (Words [''hour'', ''hr'', ''minute'', ''min''])]"

text \<open>\<open>before\s+(the|our|my)\s+(meeting|call|demo|presentation|review)\<close>\<close>

definition rx_before_meeting :: regex where
  "rx_before_meeting =
     seqs [Words [''before''], Plus Space, Group 1 (Words [''the'', ''our'', ''my'']),
           Plus Space,
           Group 2 (Words [''meeting'', ''call'', ''demo'', ''presentation'', ''review''])]"

text \<open>
  \<open>(?:(?:by|due|on|before)\s+)?(?:(next|this)\s+)?(monday|tuesday|wednesday|thursday|friday|saturday|sunday)\<close>
\<close>

definition rx_weekday :: regex where
  "rx_weekday =
     seqs [Opt (Seq (Words [''by'', ''due'', ''on'', ''before'']) (Plus Space)),
           Opt (Seq (Group 1 (Words [''next'', ''this''])) (Plus Space)),
           Group 2 (Words [''monday'', ''tuesday'', ''wednesday'', ''thursday'', ''friday'',
                           ''saturday'', ''sunday''])]"

text \<open>\<open>(?:in|within)\s+(\d+)\s*days?\<close>\<close>

definition rx_in_days :: regex where
  "rx_in_days =
     seqs [Words [''in'', ''within''], Plus Space, Group 1 (Plus Digit), Star Space,
           Words [''day''], Opt (Words [''s''])]"

text \<open>\<open>int(s)\<close> on a string of decimal digits.\<close>

definition digit_val :: "char \<Rightarrow> int" where
  "digit_val c = (case map_of (zip ''0123456789'' [0, 1, 2, 3, 4, 5, 6, 7, 8, 9]) c of
                    Some v \<Rightarrow> v | None \<Rightarrow> 0)"

definition int_of_digits :: "string \<Rightarrow> int" where
  "int_of_digits s = foldl (\<lambda>acc c. 10 * acc + digit_val c) 0 s"

subsection \<open>Dates\<close>

text \<open>
  A \<open>date\<close> is its ordinal; \<open>date.min\<close> is 1 and \<open>date.max\<close> (9999-12-31) is
  3652059. Adding a \<open>timedelta\<close> that leaves this range raises \<open>OverflowError\<close>.
  Ordinal 1 is a Monday, and \<open>weekday()\<close> counts Monday as 0. A \<open>datetime\<close> is
  the ordinal of its date and its time of day in seconds; the parser reads nothing else
  of it before it reaches the explicit-date rules.
\<close>

record datetime =
  dt_date :: int
  dt_time :: nat

definition date_max :: int where
  "date_max = 3652059"

definition date_add :: "int \<Rightarrow> int \<Rightarrow> py_error + int" where
  "date_add d n = (if 1 \<le> d + n \<and> d + n \<le> date_max then Inr (d + n) else Inl OverflowError)"

definition weekday :: "int \<Rightarrow> int" where
  "weekday d = (d + 6) mod 7"

definition WEEKDAY_MAP :: "(string \<times> int) list" where
  "WEEKDAY_MAP = [(''monday'', 0), (''tuesday'', 1), (''wednesday'', 2), (''thursday'', 3),
                  (''friday'', 4), (''saturday'', 5), (''sunday'', 6)]"

text \<open>
  \<open>_weekday_after(reference, target_wd, which)\<close>: the date part of the result (the
  source returns midnight of that date).
\<close>

definition weekday_after :: "datetime \<Rightarrow> int \<Rightarrow> string \<Rightarrow> py_error + int" where
  "weekday_after reference target_wd which =
     (let ref = dt_date reference;
          days_ahead = (target_wd - weekday ref + 7) mod 7;
          days_ahead' = (if which = ''next'' then (if days_ahead \<noteq> 0 then days_ahead else 7)
                         else days_ahead)
      in date_add ref days_ahead')"

subsection \<open>The parser\<close>

text \<open>
  \<open>parse_deadline_raw(deadline_raw, email_date_iso)\<close>. The result \<open>Inr (Some d)\<close>
  stands for the returned string \<open>d.isoformat()\<close>, \<open>Inr None\<close> for \<open>None\<close>, and
  \<open>Inl e\<close> for an exception that leaves the function. Three things come from outside
  the repository and are parameters: \<open>fromisoformat\<close> (\<open>None\<close> when it raises),
  the clock \<open>now\<close>, and \<open>explicit_rules\<close>, the rules that follow the relative ones
  and rest on \<open>dateutil\<close> (explicit and ordinal dates, \<open>the 25th\<close>).
\<close>

definition email_dt_of :: "(string \<Rightarrow> datetime option) \<Rightarrow> datetime \<Rightarrow> pyval \<Rightarrow> datetime" where
  "email_dt_of fromisoformat now email_date_iso =
     (case email_date_iso of
        PStr s \<Rightarrow> (case fromisoformat (replace_Z s) of Some dt \<Rightarrow> dt | None \<Rightarrow> now)
      | _ \<Rightarrow> now)"

definition null_like :: "string list" where
  "null_like = [''null'', ''none'', ''n/a'', ''na'', ''no deadline'', ''no date'', ''tbd'',
                ''to be determined'']"

definition asap_phrases :: "string list" where
  "asap_phrases = [''asap'', ''as soon as possible'', ''immediately'', ''right away'',
                   ''right now'', ''urgent'', ''urgently'', ''at your earliest'']"

definition parse_deadline_str ::
  "(string \<Rightarrow> datetime option) \<Rightarrow> datetime \<Rightarrow>
   (string \<Rightarrow> string \<Rightarrow> datetime \<Rightarrow> py_error + int option) \<Rightarrow>
   string \<Rightarrow> pyval \<Rightarrow> py_error + int option" where
  "parse_deadline_str fromisoformat now explicit_rules deadline_raw email_date_iso =
     (let txt = normalize_txt deadline_raw in
      if txt \<in> set null_like then Inr None
      else
      let email_dt = email_dt_of fromisoformat now email_date_iso;
          today = Inr (Some (dt_date email_dt))
      in
      if contains ''tonight'' txt \<or> contains ''this evening'' txt then today
      else if contains ''today'' txt \<and> \<not> contains ''yesterday'' txt then today
      else if contains ''end of day'' txt \<or> contains ''eod'' txt \<or> contains ''by eod'' txt
        then today
      else if contains ''close of business'' txt \<or> contains ''cob'' txt then today
      else if list_ex (\<lambda>phrase. contains phrase txt) asap_phrases then today
      else if re_search rx_within_hours txt \<noteq> None then today
      else if re_search rx_in_hours txt \<noteq> None then today
      else if re_search rx_before_meeting txt \<noteq> None then today
      else if contains ''tomorrow'' txt then map_sum id Some (date_add (dt_date email_dt) 1)
      else if contains ''first thing'' txt \<and> contains ''morning'' txt
        then map_sum id Some (date_add (dt_date email_dt) 1)
      else
      (case re_search rx_weekday txt of
         Some m \<Rightarrow>
           (let which = (case group m 1 of Some w \<Rightarrow> if w \<noteq> [] then w else ''this''
                         | None \<Rightarrow> ''this'')
            in case group m 2 of
                 None \<Rightarrow> Inl KeyError
               | Some wd \<Rightarrow>
                   (case map_of WEEKDAY_MAP wd of
                      None \<Rightarrow> Inl KeyError
                    | Some wd_index \<Rightarrow> map_sum id Some (weekday_after email_dt wd_index which)))
       | None \<Rightarrow>
           if contains ''next week'' txt then map_sum id Some (date_add (dt_date email_dt) 7)
           else if contains ''this week'' txt
             then map_sum id Some (date_add (dt_date email_dt) (6 - weekday (dt_date email_dt)))
           else if contains ''end of week'' txt \<or> contains ''end of the week'' txt
             then (let days_to_fri = 4 - weekday (dt_date email_dt);
                       days_to_fri' = (if days_to_fri < 0 then days_to_fri + 7 else days_to_fri)
                   in map_sum id Some (date_add (dt_date email_dt) days_to_fri'))
           else
           (case re_search rx_in_days txt of
              Some m \<Rightarrow>
                (case group m 1 of
                   None \<Rightarrow> Inl TypeError
                 | Some ds \<Rightarrow> map_sum id Some (date_add (dt_date email_dt) (int_of_digits ds)))
            | None \<Rightarrow> explicit_rules deadline_raw txt email_dt)))"

text \<open>
  The entry point: a falsy \<open>deadline_raw\<close> returns \<open>None\<close>; a truthy value that is
  not a string has no \<open>strip\<close> method.
\<close>

definition parse_deadline_raw ::
  "(string \<Rightarrow> datetime option) \<Rightarrow> datetime \<Rightarrow>
   (string \<Rightarrow> string \<Rightarrow> datetime \<Rightarrow> py_error + int option) \<Rightarrow>
   pyval \<Rightarrow> pyval \<Rightarrow> py_error + int option" where
  "parse_deadline_raw fromisoformat now explicit_rules deadline_raw email_date_iso =
     (if \<not> truthy deadline_raw then Inr None
      else case deadline_raw of
             PStr s \<Rightarrow> parse_deadline_str fromisoformat now explicit_rules s email_date_iso
           | _ \<Rightarrow> Inl AttributeError)"

text \<open>Sample environment for the examples: two known timestamps (a Monday and the Friday
  after it), a fixed clock, no explicit dates.\<close>

definition sample_fromisoformat_dt :: "string \<Rightarrow> datetime option" where
  "sample_fromisoformat_dt s =
     (if s = ''2025-11-24T09:00:00+00:00'' then Some \<lparr>dt_date = 739579, dt_time = 32400\<rparr>
      else if s = ''2025-11-28T09:00:00+00:00'' then Some \<lparr>dt_date = 739583, dt_time = 32400\<rparr>
      else None)"

definition sample_now :: datetime where
  "sample_now = \<lparr>dt_date = 739926, dt_time = 0\<rparr>"

definition no_explicit_rules :: "string \<Rightarrow> string \<Rightarrow> datetime \<Rightarrow> py_error + int option" where
  "no_explicit_rules raw txt dt = Inr None"



section \<open>The document store\<close>

text \<open>
  Firestore holds one document per user under \<open>users/{user_id}\<close> and the user's
  commitments under \<open>users/{user_id}/commitments/{id}\<close>. Of a user document the code
  read here uses the three credit fields and the nested map \<open>composio_connection\<close>.
  The credit fields are numbers whenever they are present (they are written by
  \<open>initialize_credits_if_missing\<close>, \<open>deduct_credits\<close> and the reset route only);
  a number is the rational it denotes. A field that is \<open>None\<close> here is absent from
  the document. \<open>users\<close> is indexed by the id given to
  \<open>db.collection("users").document(id)\<close>.

  A commitments collection is an association list from document id to document;
  \<open>AList.update\<close> is \<open>doc_ref.set(doc)\<close> and \<open>AList.delete\<close> is
  \<open>doc_ref.delete()\<close>.
\<close>

record user_doc =
  credits_total :: "rat option"
  credits_used :: "rat option"
  credits_remaining :: "rat option"
  composio_connection :: "pydict option"

text \<open>
  The Redis backup of deleted commitments: an entry is the decoded JSON value with the
  time its key expires. \<open>reachable\<close> is false when a Redis call raises.
\<close>

record shadow_item =
  si_commitment_id :: string
  si_user_id :: string
  si_data :: pydict
  si_deleted_at :: string

record redis =
  entries :: "(string \<times> shadow_item \<times> nat) list"
  reachable :: bool

text \<open>
  \<open>pause_calls\<close> logs the calls of the auto-pause hook, each with whether it
  returned (\<open>True\<close>) or raised. \<open>redis_client\<close> is \<open>None\<close> when Redis is not
  configured. \<open>uuid_calls\<close> counts the identifiers drawn so far.
\<close>

record store =
  users :: "string \<rightharpoonup> user_doc"
  commitments :: "string \<Rightarrow> (string \<times> pydict) list"
  redis_client :: "redis option"
  pause_calls :: "(string \<times> bool) list"
  uuid_calls :: nat


section \<open>Python floats\<close>

text \<open>
  A Python \<open>float\<close> is an IEEE 754 double: a rational \<open>m * 2^q\<close> with
  \<open>|m| < 2^53\<close> and \<open>q \<ge> -1074\<close>, of magnitude below \<open>2^1024\<close>. The sum or
  difference of two floats is the exact result rounded to the nearest double, ties to
  the even significand; \<open>round_double\<close> is that rounding. \<open>exponent a\<close> is
  \<open>\<lfloor>log\<^sub>2 a\<rfloor>\<close> for a positive \<open>a\<close>. A result of magnitude \<open>2^1024\<close> or more is
  \<open>inf\<close> in Python and has no value here: \<open>is_double\<close> says that a rational is a
  finite double, and the results below are stated for runs that stay among them.
\<close>

definition round_half_even :: "rat \<Rightarrow> int" where
  "round_half_even r =
     (let f = \<lfloor>r\<rfloor>; d = r - of_int f
      in if d < 1 / 2 then f
         else if 1 / 2 < d then f + 1
         else if even f then f else f + 1)"

definition exponent :: "rat \<Rightarrow> int" where
  "exponent a =
     (case quotient_of a of
        (n, d) \<Rightarrow> (let k = bitlen n - bitlen d in if 2 powi k \<le> a then k else k - 1))"

definition round_double :: "rat \<Rightarrow> rat" where
  "round_double x =
     (if x = 0 then 0
      else (let a = \<bar>x\<bar>;
                q = max (exponent a - 52) (- 1074);
                m = round_half_even (a / 2 powi q)
            in sgn x * of_int m * 2 powi q))"

definition is_double :: "rat \<Rightarrow> bool" where
  "is_double x = (round_double x = x \<and> \<bar>x\<bar> < 2 ^ 1024)"


section \<open>Credit engine (credit\_engine.py)\<close>

text \<open>
  \<open>db.collection("users").document(user_id)\<close> joins the path with \<open>/\<close>, splits it
  again and raises \<open>ValueError\<close> when the number of segments is odd, that is, when
  \<open>user_id\<close> has an odd number of \<open>/\<close> characters. Otherwise it is a reference to
  the document that \<open>users\<close> holds for this id.
\<close>

definition slash_count :: "string \<Rightarrow> nat" where
  "slash_count user_id = length (filter (\<lambda>c. c = CHR ''/'') user_id)"

definition user_ref :: "string \<Rightarrow> py_error + string" where
  "user_ref user_id = (if odd (slash_count user_id) then Inl ValueError else Inr user_id)"

text \<open>\<open>float(data.get(k, 0))\<close> on a credit field.\<close>

definition float_field :: "rat option \<Rightarrow> rat" where
  "float_field v = round_double (case v of None \<Rightarrow> 0 | Some r \<Rightarrow> r)"

text \<open>
  The transaction of \<open>deduct_credits\<close>: the updated user document and the returned
  \<open>new_remaining\<close>. \<open>credits_spent\<close> is a float.
\<close>

definition txn :: "user_doc \<Rightarrow> rat \<Rightarrow> user_doc \<times> rat" where
  "txn data credits_spent =
     (let remaining = float_field (credits_remaining data);
          used = float_field (credits_used data);
          new_remaining = max (round_double (remaining - credits_spent)) 0;
          new_used = round_double (used + credits_spent)
      in (data\<lparr>credits_remaining := Some new_remaining, credits_used := Some new_used\<rparr>,
          new_remaining))"

text \<open>
  The names that services/composio/composio\_manager.py binds at module level: its
  imports and its functions. \<open>from services.composio.composio_manager import name\<close>
  raises \<open>ImportError\<close> for any other name.
\<close>

definition composio_manager_names :: "string list" where
  "composio_manager_names =
     [''datetime'', ''timezone'', ''firestore'', ''Dict'', ''Optional'', ''_get_db'',
      ''get_connection_state'', ''mark_first_connection'', ''mark_reconnection'',
      ''mark_disconnection'', ''should_run_initial_sync'', ''migrate_existing_user'']"

text \<open>
  \<open>deduct_credits(user_id, credits_spent)\<close>. A missing user raises \<open>ValueError\<close>
  inside the transaction. After the commit, when \<open>new_remaining <= 0\<close>, the code
  imports \<open>pause_composio_trigger\<close> from the module above and calls it, all inside
  \<open>try/except Exception\<close>: when the import fails the hook is never called, the
  handler prints the failure and \<open>deduct_credits\<close> returns normally. Were the name
  bound, the call would be logged in \<open>pause_calls\<close> with its outcome, the parameter
  \<open>pause_composio_trigger\<close> (\<open>True\<close> when it returns, \<open>False\<close> when it raises).
\<close>

definition deduct_credits ::
  "(store \<Rightarrow> string \<Rightarrow> bool) \<Rightarrow> store \<Rightarrow> string \<Rightarrow> rat \<Rightarrow> py_error + store" where
  "deduct_credits pause_composio_trigger s user_id credits_spent =
     (case user_ref user_id of
        Inl e \<Rightarrow> Inl e
      | Inr ref \<Rightarrow>
          (case users s ref of
             None \<Rightarrow> Inl ValueError
           | Some data \<Rightarrow>
               (case txn data credits_spent of
                  (data', new_remaining) \<Rightarrow>
                    (let s1 = s\<lparr>users := (users s)(ref \<mapsto> data')\<rparr> in
                     if new_remaining \<le> 0
                     then (if ''pause_composio_trigger'' \<in> set composio_manager_names
                           then Inr (s1\<lparr>pause_calls := pause_calls s1 @
                                       [(user_id, pause_composio_trigger s1 user_id)]\<rparr>)
                           else Inr s1)
                     else Inr s1))))"

text \<open>A sequence of deductions for one user; the first exception ends it.\<close>

fun deduct_all ::
  "(store \<Rightarrow> string \<Rightarrow> bool) \<Rightarrow> store \<Rightarrow> string \<Rightarrow> rat list \<Rightarrow> py_error + store" where
  "deduct_all pause s user_id [] = Inr s"
| "deduct_all pause s user_id (a # as) =
     (case deduct_credits pause s user_id a of
        Inl e \<Rightarrow> Inl e
      | Inr s' \<Rightarrow> deduct_all pause s' user_id as)"


text \<open>
  A run of deductions in which no float operation rounds: the amount is a float, and
  the new \<open>used\<close> and the difference \<open>remaining - amount\<close> are doubles as they
  stand.
\<close>

fun exact_run :: "rat \<Rightarrow> rat \<Rightarrow> rat list \<Rightarrow> bool" where
  "exact_run used remaining [] = True"
| "exact_run used remaining (a # as) =
     (is_double a \<and> is_double (used + a) \<and> is_double (remaining - a)
      \<and> exact_run (used + a) (max (remaining - a) 0) as)"

text \<open>The credit fields of a user, for stating results.\<close>

definition credit_fields :: "store \<Rightarrow> string \<Rightarrow> (rat option \<times> rat option \<times> rat option) option" where
  "credit_fields s user_id =
     map_option (\<lambda>d. (credits_total d, credits_used d, credits_remaining d)) (users s user_id)"

definition empty_store :: store where
  "empty_store = \<lparr>users = Map.empty, commitments = (\<lambda>u. []), redis_client = None,
                   pause_calls = [], uuid_calls = 0\<rparr>"

definition fresh_user :: "rat \<Rightarrow> user_doc" where
  "fresh_user initial_total =
     \<lparr>credits_total = Some initial_total, credits_used = Some 0,
      credits_remaining = Some initial_total, composio_connection = None\<rparr>"

definition sample_hook :: "store \<Rightarrow> string \<Rightarrow> bool" where
  "sample_hook s user_id = True"


section \<open>Live webhook (main.py, composio\_webhook)\<close>


definition dict_get :: "(string \<times> pyval) list \<Rightarrow> string \<Rightarrow> pyval" where
  "dict_get kvs k = py_get (map_of kvs) k"



section \<open>Connection state (services/composio/connection\_state\_manager.py)\<close>

text \<open>
  \<open>user_ref.update\<close> with dotted paths writes the named fields of the nested map and
  leaves the rest of the document alone; it raises when the user document does not exist,
  and both functions catch that and return \<open>False\<close>.
\<close>

definition connection_of :: "user_doc \<Rightarrow> pydict" where
  "connection_of d = (case composio_connection d of None \<Rightarrow> Map.empty | Some m \<Rightarrow> m)"

definition update_connection :: "store \<Rightarrow> string \<Rightarrow> (string \<times> pyval) list \<Rightarrow> bool \<times> store" where
  "update_connection s user_id updates =
     (case users s user_id of
        None \<Rightarrow> (False, s)
      | Some d \<Rightarrow>
          (True, s\<lparr>users := (users s)(user_id \<mapsto>
                     d\<lparr>composio_connection := Some (connection_of d ++ map_of updates)\<rparr>)\<rparr>))"

definition mark_reconnection ::
  "store \<Rightarrow> string \<Rightarrow> pyval \<Rightarrow> pyval \<Rightarrow> pyval \<Rightarrow> bool \<times> store" where
  "mark_reconnection s user_id entity_id inbox_trigger_id sent_trigger_id =
     update_connection s user_id
       [(''composio_enabled'', PBool True),
        (''inbox_trigger_id'', inbox_trigger_id),
        (''sent_trigger_id'', sent_trigger_id),
        (''entity_id'', entity_id)]"

definition mark_disconnection :: "store \<Rightarrow> string \<Rightarrow> bool \<times> store" where
  "mark_disconnection s user_id =
     update_connection s user_id
       [(''composio_enabled'', PBool False),
        (''inbox_trigger_id'', PNone),
        (''sent_trigger_id'', PNone)]"

text \<open>A field of a user's connection state; \<open>None\<close> when the user, the map or the field is absent.\<close>

definition connection_field :: "store \<Rightarrow> string \<Rightarrow> string \<Rightarrow> pyval option" where
  "connection_field s user_id k =
     (case users s user_id of
        None \<Rightarrow> None
      | Some d \<Rightarrow> (case composio_connection d of None \<Rightarrow> None | Some m \<Rightarrow> m k))"

definition connected_user :: user_doc where
  "connected_user =
     \<lparr>credits_total = Some 100, credits_used = Some 0, credits_remaining = Some 100,
      composio_connection = Some
        [''first_connected_at'' \<mapsto> PDatetime 738886, ''is_first_time'' \<mapsto> PBool False,
         ''composio_enabled'' \<mapsto> PBool True, ''inbox_trigger_id'' \<mapsto> PStr ''ti_1'',
         ''sent_trigger_id'' \<mapsto> PStr ''ti_2'', ''entity_id'' \<mapsto> PStr ''ca_1'',
         ''last_sync_time'' \<mapsto> PDatetime 738886]\<rparr>"

text \<open>The credit fields of a user after a sequence of deductions (\<open>None\<close> when one raised).\<close>

definition credits_after ::
  "(store \<Rightarrow> string \<Rightarrow> bool) \<Rightarrow> store \<Rightarrow> string \<Rightarrow> rat list \<Rightarrow>
   (rat option \<times> rat option \<times> rat option) option" where
  "credits_after pause s user_id amounts =
     (case deduct_all pause s user_id amounts of
        Inl e \<Rightarrow> None
      | Inr s' \<Rightarrow> credit_fields s' user_id)"


section \<open>Extraction post-processing (services/gmail/extract\_initial\_commitments.py)\<close>

text \<open>
  The part of \<open>_validate_schema\<close> that checks one commitment of the model's answer:
  it is a dict, the required fields are present, \<open>estimated_hours\<close> is an
  \<open>int\<close> or a \<open>float\<close> (a \<open>bool\<close> is an \<open>int\<close>) and \<open>assigned_to_me\<close>
  is a \<open>bool\<close>.
\<close>

definition required_fields :: "string list" where
  "required_fields = [''what'', ''to_whom'', ''assigned_to_me'', ''deadline_raw'', ''priority'',
                      ''confidence'', ''commitment_type'', ''estimated_hours'']"

definition is_number :: "pyval \<Rightarrow> bool" where
  "is_number v = (case v of PInt i \<Rightarrow> True | PFloat r \<Rightarrow> True | PBool b \<Rightarrow> True | _ \<Rightarrow> False)"

definition is_bool :: "pyval \<Rightarrow> bool" where
  "is_bool v = (case v of PBool b \<Rightarrow> True | _ \<Rightarrow> False)"

definition valid_commitment :: "pyval \<Rightarrow> bool" where
  "valid_commitment c =
     (case c of
        PDict kvs \<Rightarrow>
          list_all (\<lambda>field. map_of kvs field \<noteq> None) required_fields
          \<and> is_number (dict_get kvs ''estimated_hours'')
          \<and> dict_get kvs ''estimated_hours'' \<noteq> PNone
          \<and> is_bool (dict_get kvs ''assigned_to_me'')
      | _ \<Rightarrow> False)"

text \<open>
  The \<open>if/elif\<close> chain of \<open>_post_process_commitments\<close> on the lower-cased
  \<open>commitment_type\<close>.
\<close>

definition default_estimated_hours :: "string \<Rightarrow> pyval" where
  "default_estimated_hours commitment_type =
     (if contains ''meeting'' commitment_type \<or> contains ''call'' commitment_type then PInt 1
      else if contains ''email'' commitment_type \<or> contains ''message'' commitment_type
              \<or> contains ''communication'' commitment_type then PFloat (1 / 2)
      else if contains ''deliverable'' commitment_type \<or> contains ''report'' commitment_type
              \<or> contains ''document'' commitment_type then PInt 3
      else if contains ''presentation'' commitment_type then PInt 5
      else if contains ''feature'' commitment_type \<or> contains ''development'' commitment_type
        then PInt 8
      else PInt 2)"

text \<open>
  The body of the loop of \<open>_post_process_commitments\<close> for one commitment \<open>c\<close>.
  \<open>.lower()\<close> on a \<open>commitment_type\<close> that is not a string raises
  \<open>AttributeError\<close>, which leaves the function. The deadline parser's exceptions are
  caught. \<open>isoformat\<close> and \<open>fromisoformat_date\<close> are the library's
  \<open>date.isoformat()\<close> and \<open>datetime.fromisoformat(s).date()\<close>; \<open>today\<close> is the
  clock's date.
\<close>

definition ensure_estimated_hours :: "pydict \<Rightarrow> py_error + pydict" where
  "ensure_estimated_hours c =
     (if py_get c ''estimated_hours'' = PNone then
        (case py_get_default c ''commitment_type'' (PStr []) of
           PStr t \<Rightarrow> Inr (c(''estimated_hours'' \<mapsto> default_estimated_hours (lower t)))
         | _ \<Rightarrow> Inl AttributeError)
      else Inr c)"

definition post_process_commitment ::
  "(string \<Rightarrow> datetime option) \<Rightarrow> datetime \<Rightarrow>
   (string \<Rightarrow> string \<Rightarrow> datetime \<Rightarrow> py_error + int option) \<Rightarrow>
   (int \<Rightarrow> string) \<Rightarrow> (string \<Rightarrow> int option) \<Rightarrow> int \<Rightarrow> pydict \<Rightarrow> pydict \<Rightarrow>
   py_error + pydict" where
  "post_process_commitment fromisoformat now explicit_rules isoformat fromisoformat_date today
       email c =
     (let email_sender = py_get_default email ''sender'' (PStr []);
          email_date = py_get_default email ''date'' (PStr []);
          c1 = c(''given_by'' \<mapsto> email_sender)
      in case ensure_estimated_hours c1 of
           Inl e \<Rightarrow> Inl e
         | Inr c2 \<Rightarrow>
             (let deadline_raw = py_get c2 ''deadline_raw'';
                  deadline_iso =
                    (if truthy deadline_raw then
                       (case parse_deadline_raw fromisoformat now explicit_rules deadline_raw
                               email_date of
                          Inl e \<Rightarrow> PNone
                        | Inr None \<Rightarrow> PNone
                        | Inr (Some d) \<Rightarrow> PStr (isoformat d))
                     else PNone);
                  c3 = c2(''deadline_iso'' \<mapsto> deadline_iso);
                  (status, days_overdue, overdue_flag) =
                    (if truthy deadline_iso then
                       (case deadline_iso of
                          PStr s \<Rightarrow>
                            (case fromisoformat_date s of
                               None \<Rightarrow> (''no_deadline'', 0, False)
                             | Some d_iso \<Rightarrow>
                                 if d_iso < today then (''overdue'', today - d_iso, True)
                                 else if d_iso = today then (''due_today'', 0, False)
                                 else (''active'', 0, False))
                        | _ \<Rightarrow> (''no_deadline'', 0, False))
                     else (''no_deadline'', 0, False))
              in Inr (c3(''status'' \<mapsto> PStr status,
                         ''days_overdue'' \<mapsto> PInt days_overdue,
                         ''overdue_flag'' \<mapsto> PBool overdue_flag,
                         ''completed'' \<mapsto> PBool False,
                         ''completed_at'' \<mapsto> PNone))))"

fun post_process_commitments ::
  "(string \<Rightarrow> datetime option) \<Rightarrow> datetime \<Rightarrow>
   (string \<Rightarrow> string \<Rightarrow> datetime \<Rightarrow> py_error + int option) \<Rightarrow>
   (int \<Rightarrow> string) \<Rightarrow> (string \<Rightarrow> int option) \<Rightarrow> int \<Rightarrow> pydict \<Rightarrow> pydict list \<Rightarrow>
   py_error + pydict list" where
  "post_process_commitments fi now er isof fd today email [] = Inr []"
| "post_process_commitments fi now er isof fd today email (c # cs) =
     (case post_process_commitment fi now er isof fd today email c of
        Inl e \<Rightarrow> Inl e
      | Inr c' \<Rightarrow>
          (case post_process_commitments fi now er isof fd today email cs of
             Inl e \<Rightarrow> Inl e
           | Inr cs' \<Rightarrow> Inr (c' # cs')))"

text \<open>The numeric value of a number, for comparing \<open>estimated_hours\<close> with 0.\<close>

definition num_val :: "pyval \<Rightarrow> rat option" where
  "num_val v = (case v of PInt i \<Rightarrow> Some (of_int i) | PFloat r \<Rightarrow> Some r
                | PBool b \<Rightarrow> Some (if b then 1 else 0) | _ \<Rightarrow> None)"

definition positive :: "pyval \<Rightarrow> bool" where
  "positive v = (case num_val v of Some r \<Rightarrow> 0 < r | None \<Rightarrow> False)"

definition sample_isoformat :: "int \<Rightarrow> string" where
  "sample_isoformat d = (if d = 739577 then ''2025-11-22'' else ''2025-11-28'')"

definition sample_email :: pydict where
  "sample_email = [''sender'' \<mapsto> PStr ''a@b.com'', ''date'' \<mapsto> PStr ''2025-11-24T09:00:00Z'']"

definition zero_hours_commitment :: "(string \<times> pyval) list" where
  "zero_hours_commitment =
     [(''what'', PStr ''Join the sync''), (''to_whom'', PStr ''Ann''),
      (''assigned_to_me'', PBool True), (''deadline_raw'', PNone),
      (''priority'', PStr ''low''), (''confidence'', PFloat (9 / 10)),
      (''commitment_type'', PStr ''meeting''), (''estimated_hours'', PInt 0)]"


section \<open>Delete and restore (routes/commitment\_routes.py)\<close>

text \<open>
  \<open>backup_to_redis\<close> stores \<open>json.dumps(data, default=str)\<close> and the restore route
  reads it back with \<open>json.loads\<close>. A value JSON has no form for (a date, a datetime)
  goes through \<open>str\<close>, the parameter \<open>str_of\<close>, and comes back as a string;
  every other value comes back as it was.
\<close>

fun json_value :: "(pyval \<Rightarrow> string) \<Rightarrow> pyval \<Rightarrow> pyval" where
  "json_value str_of PNone = PNone"
| "json_value str_of (PBool b) = PBool b"
| "json_value str_of (PInt i) = PInt i"
| "json_value str_of (PFloat r) = PFloat r"
| "json_value str_of (PStr s) = PStr s"
| "json_value str_of (PDate d) = PStr (str_of (PDate d))"
| "json_value str_of (PDatetime d) = PStr (str_of (PDatetime d))"
| "json_value str_of (PList xs) = PList (map (json_value str_of) xs)"
| "json_value str_of (PDict kvs) = PDict (map (\<lambda>(k, v). (k, json_value str_of v)) kvs)"

definition json_roundtrip :: "(pyval \<Rightarrow> string) \<Rightarrow> pydict \<Rightarrow> pydict" where
  "json_roundtrip str_of d = (\<lambda>k. map_option (json_value str_of) (d k))"

fun json_native :: "pyval \<Rightarrow> bool" where
  "json_native (PDate d) = False"
| "json_native (PDatetime d) = False"
| "json_native (PList xs) = list_all json_native xs"
| "json_native (PDict kvs) = list_all (\<lambda>(k, v). json_native v) kvs"
| "json_native v = True"

datatype http_error = Http_400 | Http_404 | Http_error_500

definition shadow_key :: "string \<Rightarrow> string \<Rightarrow> string" where
  "shadow_key user_id commitment_id = ''deleted_commitment:'' @ user_id @ '':'' @ commitment_id"

text \<open>Redis commands at clock reading \<open>now\<close> (seconds): a key is gone once it has expired.\<close>

definition setex :: "redis \<Rightarrow> string \<Rightarrow> nat \<Rightarrow> nat \<Rightarrow> shadow_item \<Rightarrow> redis" where
  "setex r key ttl now item = r\<lparr>entries := AList.update key (item, now + ttl) (entries r)\<rparr>"

definition redis_get :: "redis \<Rightarrow> nat \<Rightarrow> string \<Rightarrow> shadow_item option" where
  "redis_get r now key =
     (case map_of (entries r) key of
        None \<Rightarrow> None
      | Some (item, expires) \<Rightarrow> if now < expires then Some item else None)"

definition redis_delete :: "redis \<Rightarrow> string \<Rightarrow> redis" where
  "redis_delete r key = r\<lparr>entries := AList.delete key (entries r)\<rparr>"

text \<open>
  \<open>get_commitment_by_field\<close>: the first document whose \<open>commitment_id\<close> field is
  the id, else the document with that document id. The result is the document's id and
  content.
\<close>

definition get_commitment_by_field :: "store \<Rightarrow> string \<Rightarrow> string \<Rightarrow> (string \<times> pydict) option" where
  "get_commitment_by_field s user_id commitment_id =
     (case find (\<lambda>(i, d). d ''commitment_id'' = Some (PStr commitment_id))
             (commitments s user_id) of
        Some found \<Rightarrow> Some found
      | None \<Rightarrow>
          (case map_of (commitments s user_id) commitment_id of
             Some d \<Rightarrow> Some (commitment_id, d)
           | None \<Rightarrow> None))"

definition backup_to_redis ::
  "(pyval \<Rightarrow> string) \<Rightarrow> store \<Rightarrow> string \<Rightarrow> string \<Rightarrow> pydict \<Rightarrow> string \<Rightarrow> nat \<Rightarrow> bool \<times> store" where
  "backup_to_redis str_of s user_id commitment_id commitment_data deleted_at now =
     (case redis_client s of
        None \<Rightarrow> (False, s)
      | Some r \<Rightarrow>
          if \<not> reachable r then (False, s)
          else (True, s\<lparr>redis_client := Some
                  (setex r (shadow_key user_id commitment_id) 86400 now
                     \<lparr>si_commitment_id = commitment_id, si_user_id = user_id,
                      si_data = json_roundtrip str_of commitment_data,
                      si_deleted_at = deleted_at\<rparr>)\<rparr>))"

text \<open>
  The two routes, after token verification has produced \<open>user_id\<close>. The clock readings
  are parameters: \<open>deleted_at\<close>, \<open>restored_at\<close> and \<open>updated_at\<close> are the
  rendered timestamps, \<open>now\<close> the time in seconds.
\<close>

definition delete_commitment ::
  "(pyval \<Rightarrow> string) \<Rightarrow> store \<Rightarrow> string \<Rightarrow> string \<Rightarrow> string \<Rightarrow> nat \<Rightarrow> http_error + store" where
  "delete_commitment str_of s user_id commitment_id deleted_at now =
     (case get_commitment_by_field s user_id commitment_id of
        None \<Rightarrow> Inl Http_404
      | Some (doc_id, commitment_data) \<Rightarrow>
          (let s1 = snd (backup_to_redis str_of s user_id commitment_id commitment_data
                           deleted_at now)
           in Inr (s1\<lparr>commitments := (commitments s1)
                        (user_id := AList.delete doc_id (commitments s1 user_id))\<rparr>)))"

definition restore_deleted_commitment ::
  "store \<Rightarrow> string \<Rightarrow> string \<Rightarrow> string \<Rightarrow> string \<Rightarrow> nat \<Rightarrow> http_error + store" where
  "restore_deleted_commitment s user_id commitment_id restored_at updated_at now =
     (case redis_client s of
        None \<Rightarrow> Inl Http_400
      | Some r \<Rightarrow>
          if \<not> reachable r then Inl Http_error_500
          else
            (case redis_get r now (shadow_key user_id commitment_id) of
               None \<Rightarrow> Inl Http_404
             | Some item \<Rightarrow>
                 (let commitment_data = (si_data item)
                        (''restored_at'' \<mapsto> PStr restored_at,
                         ''updated_at'' \<mapsto> PStr updated_at,
                         ''completed'' \<mapsto> PBool False,
                         ''status'' \<mapsto> PStr ''active'')
                  in Inr (s\<lparr>commitments := (commitments s)
                              (user_id := AList.update commitment_id commitment_data
                                            (commitments s user_id)),
                            redis_client := Some (redis_delete r
                                                    (shadow_key user_id commitment_id))\<rparr>))))"

definition delete_then_restore ::
  "(pyval \<Rightarrow> string) \<Rightarrow> store \<Rightarrow> string \<Rightarrow> string \<Rightarrow> string \<Rightarrow> nat \<Rightarrow> string \<Rightarrow> string \<Rightarrow> nat \<Rightarrow>
   http_error + store" where
  "delete_then_restore str_of s user_id commitment_id deleted_at now restored_at updated_at now' =
     (case delete_commitment str_of s user_id commitment_id deleted_at now of
        Inl e \<Rightarrow> Inl e
      | Inr s1 \<Rightarrow> restore_deleted_commitment s1 user_id commitment_id restored_at updated_at now')"

definition sample_str_of :: "pyval \<Rightarrow> string" where
  "sample_str_of v = ''2025-11-22''"

definition sample_commitment :: pydict where
  "sample_commitment =
     [''commitment_id'' \<mapsto> PStr ''commitment_1'', ''what'' \<mapsto> PStr ''Send the deck'',
      ''message_id'' \<mapsto> PStr ''m1'', ''completed'' \<mapsto> PBool True,
      ''status'' \<mapsto> PStr ''completed'', ''updated_at'' \<mapsto> PStr ''2025-11-20T10:00:00+00:00'']"

definition sample_store :: "redis option \<Rightarrow> store" where
  "sample_store rc =
     empty_store\<lparr>commitments := (\<lambda>u. [])(''u1'' := [(''commitment_1'', sample_commitment)]),
                 redis_client := rc\<rparr>"


section \<open>Live pipeline (tools/gmail/process\_new\_email.py)\<close>







text \<open>\<open>check_commitment_exists\<close>: some commitment of the user has this \<open>message_id\<close>.\<close>

definition check_commitment_exists :: "store \<Rightarrow> string \<Rightarrow> pyval \<Rightarrow> bool" where
  "check_commitment_exists s user_id message_id =
     list_ex (\<lambda>(i, d). d ''message_id'' = Some message_id) (commitments s user_id)"











section \<open>Exact float operations\<close>

text \<open>
  A rational \<open>n / 2^k\<close> with \<open>|n| < 2^53\<close> and \<open>k \<le> 1074\<close> is a double, so
  sums and differences that stay on such a grid are computed without rounding.
\<close>

lemma round_half_even_of_int: "round_half_even (of_int m) = m"
  by (simp add: round_half_even_def)

lemma two_powi_less_cancel:
  assumes "(2::rat) powi m < 2 powi n"
  shows "m < n"
proof (rule ccontr)
  assume "\<not> m < n"
  then have "n \<le> m" by simp
  then have "(2::rat) powi n \<le> 2 powi m" by (rule power_int_increasing) simp
  with assms show False by simp
qed

lemma bitlen_lower: 
  assumes "0 < n"
  shows "(2::rat) powi (bitlen n - 1) \<le> of_int n"
proof -
  have b: "0 \<le> bitlen n - 1"
    using assms bitlen_nonneg [of n] bitlen_eq_zero_iff [of n] by linarith
  have "(2::int) ^ nat (bitlen n - 1) \<le> n" using bitlen_bounds [OF assms] by simp
  then have "(of_int ((2::int) ^ nat (bitlen n - 1)) :: rat) \<le> of_int n"
    by (simp only: of_int_le_iff)
  then show ?thesis using b by (simp add: power_int_def)
qed

lemma bitlen_upper: 
  assumes "0 < d"
  shows "of_int d < (2::rat) powi (bitlen d)"
proof -
  have "d < (2::int) ^ nat (bitlen d)" using bitlen_bounds [OF assms] by simp
  then have "(of_int d :: rat) < of_int ((2::int) ^ nat (bitlen d))"
    by (simp only: of_int_less_iff)
  then show ?thesis using bitlen_nonneg [of d] by (simp add: power_int_def)
qed

lemma exponent_le:
  assumes "0 < a" "a < 2 powi (j + 1)"
  shows "exponent a \<le> j"
proof -
  obtain n d where q: "quotient_of a = (n, d)" by (cases "quotient_of a")
  have d: "0 < d" by (rule quotient_of_denom_pos [OF q])
  have a: "a = of_int n / of_int d" by (rule quotient_of_div [OF q])
  have n: "0 < n" using assms(1) d a by (simp add: zero_less_divide_iff)
  let ?k = "bitlen n - bitlen d"
  show ?thesis
  proof (cases "2 powi ?k \<le> a")
    case True
    then have "(2::rat) powi ?k < 2 powi (j + 1)" using assms(2) by simp
    then have "?k < j + 1" by (rule two_powi_less_cancel)
    then show ?thesis using True q by (simp add: exponent_def)
  next
    case False
    have "(2::rat) powi (bitlen n - 1) / 2 powi (bitlen d) < of_int n / of_int d"
      using bitlen_lower [OF n] bitlen_upper [OF d] d
      by (intro frac_less2) simp_all
    moreover have "(2::rat) powi (?k - 1) = 2 powi (bitlen n - 1) / 2 powi (bitlen d)"
      using power_int_diff [of "2::rat" "bitlen n - 1" "bitlen d"] by (simp add: algebra_simps)
    ultimately have "(2::rat) powi (?k - 1) < 2 powi (j + 1)" using assms(2) a by simp
    then have "?k - 1 < j + 1" by (rule two_powi_less_cancel)
    then show ?thesis using False q by (simp add: exponent_def)
  qed
qed

lemma round_double_exact:
  assumes "\<bar>x\<bar> / 2 powi (max (exponent \<bar>x\<bar> - 52) (- 1074)) = of_int m"
  shows "round_double x = x"
proof (cases "x = 0")
  case True
  then show ?thesis by (simp add: round_double_def)
next
  case False
  let ?q = "max (exponent \<bar>x\<bar> - 52) (- 1074)"
  have p: "(2::rat) powi ?q \<noteq> 0" by simp
  have "round_double x = sgn x * of_int (round_half_even (of_int m)) * 2 powi ?q"
    using False assms by (simp add: round_double_def Let_def)
  also have "\<dots> = sgn x * (\<bar>x\<bar> / 2 powi ?q) * 2 powi ?q"
    by (simp only: round_half_even_of_int assms)
  also have "\<dots> = sgn x * \<bar>x\<bar>" using p by simp
  also have "\<dots> = x" by (simp add: sgn_mult_abs)
  finally show ?thesis .
qed

lemma round_double_0: "round_double 0 = 0"
  by (simp add: round_double_def)

lemma is_double_0: "is_double 0"
  by (simp add: is_double_def round_double_0)

lemma is_double_dyadic:
  assumes "\<bar>n\<bar> < 2 ^ 53" "k \<le> 1074"
  shows "is_double (of_int n / 2 ^ k)"
proof (cases "n = 0")
  case True
  then show ?thesis by (simp add: is_double_0)
next
  case False
  let ?x = "of_int n / 2 ^ k :: rat"
  let ?a = "of_int \<bar>n\<bar> / 2 ^ k :: rat"
  let ?q = "max (exponent ?a - 52) (- 1074)"
  have ax: "\<bar>?x\<bar> = ?a" by (simp add: abs_divide)
  have pos: "0 < ?a" using False by simp
  have n53: "(of_int \<bar>n\<bar> :: rat) < 2 ^ 53"
    using assms(1) by (metis of_int_less_numeral_power_cancel_iff)
  have "?a < 2 ^ 53 / 2 ^ k" using n53 by (simp add: divide_strict_right_mono)
  also have "\<dots> = 2 powi (52 - int k + 1)"
    using power_int_diff [of "2::rat" 53 "int k"] by (simp add: power_int_def nat_diff_distrib)
  finally have "exponent ?a \<le> 52 - int k" by (rule exponent_le [OF pos])
  then have q: "0 \<le> - int k - ?q" using assms(2) by simp
  have "?a / 2 powi ?q = of_int \<bar>n\<bar> * 2 powi (- int k - ?q)"
    using power_int_diff [of "2::rat" "- int k" ?q]
    by (simp add: power_int_minus field_simps)
  also have "\<dots> = of_int (\<bar>n\<bar> * 2 ^ nat (- int k - ?q))"
    using q by (simp add: power_int_def)
  finally have "round_double ?x = ?x"
    by (intro round_double_exact [where m = "\<bar>n\<bar> * 2 ^ nat (- int k - ?q)"]) (simp only: ax)
  moreover have "\<bar>?x\<bar> < 2 ^ 1024"
  proof -
    have "?a \<le> of_int \<bar>n\<bar>" by (simp add: divide_le_eq mult_le_cancel_left1)
    also have "\<dots> < 2 ^ 53" by (rule n53)
    also have "\<dots> < (2::rat) ^ 1024" by simp
    finally show ?thesis by (simp only: ax)
  qed
  ultimately show ?thesis by (simp add: is_double_def)
qed

lemma exact_run_dyadic:
  assumes "k \<le> 1074" "0 \<le> U" "0 \<le> R" "\<forall>n \<in> set ns. 0 \<le> n"
    and "U + sum_list ns < 2 ^ 53" "R < 2 ^ 53"
  shows "exact_run (of_int U / 2 ^ k) (of_int R / 2 ^ k) (map (\<lambda>n. of_int n / 2 ^ k) ns)"
  using assms(2-)
proof (induction ns arbitrary: U R)
  case Nil
  then show ?case by simp
next
  case (Cons n ns)
  have n: "0 \<le> n" using Cons.prems(3) by simp
  have s: "0 \<le> sum_list ns" using Cons.prems(3) by (simp add: sum_list_nonneg)
  have 1: "is_double (of_int n / 2 ^ k)"
    using n s Cons.prems(1,4) by (intro is_double_dyadic assms(1)) simp
  have 2: "is_double (of_int (U + n) / 2 ^ k)"
    using n s Cons.prems(1,4) by (intro is_double_dyadic assms(1)) simp
  have 3: "is_double (of_int (R - n) / 2 ^ k)"
    using n s Cons.prems(1,2,4,5) by (intro is_double_dyadic assms(1)) simp
  have 4: "exact_run (of_int (U + n) / 2 ^ k) (of_int (max (R - n) 0) / 2 ^ k)
             (map (\<lambda>n. of_int n / 2 ^ k) ns)"
    using n Cons.prems by (intro Cons.IH) (simp_all add: add.assoc)
  have "(0::rat) < 2 ^ k" by simp
  then have m: "max (of_int (R - n) / 2 ^ k) 0 = (of_int (max (R - n) 0) / 2 ^ k :: rat)"
    by (simp add: max_def divide_le_0_iff not_le [symmetric])
  have e: "of_int U / 2 ^ k + of_int n / 2 ^ k = (of_int (U + n) / 2 ^ k :: rat)"
    by (simp add: add_divide_distrib)
  have f: "of_int R / 2 ^ k - of_int n / 2 ^ k = (of_int (R - n) / 2 ^ k :: rat)"
    by (simp add: diff_divide_distrib)
  show ?case
    by (simp only: list.map exact_run.simps e f m 1 2 3 4 simp_thms)
qed


section \<open>Credit accounting\<close>

lemma no_pause_hook: "''pause_composio_trigger'' \<notin> set composio_manager_names"
  by (simp add: composio_manager_names_def)

lemma is_double_max_0: "is_double x \<Longrightarrow> is_double (max x 0)"
  by (simp add: max_def is_double_0)

lemma is_double_round: "is_double x \<Longrightarrow> round_double x = x"
  by (simp add: is_double_def)

lemma sample_doubles:
  "is_double 10" "is_double 15" "is_double (- 5)" "is_double 4" "is_double 3" "is_double 8"
  "is_double 6" "is_double 7" "is_double 12" "is_double (- 2)" "is_double (1 / 4)"
  "is_double (39 / 4)"
  using is_double_dyadic [of 10 0] is_double_dyadic [of 15 0] is_double_dyadic [of "- 5" 0]
    is_double_dyadic [of 4 0] is_double_dyadic [of 3 0] is_double_dyadic [of 8 0]
    is_double_dyadic [of 6 0] is_double_dyadic [of 7 0] is_double_dyadic [of 12 0]
    is_double_dyadic [of "- 2" 0] is_double_dyadic [of 1 2] is_double_dyadic [of 39 2]
  by simp_all

lemma deduct_credits_step:
  assumes "users s u = Some d" "\<not> odd (slash_count u)"
  shows "deduct_credits pause s u a = Inr (s\<lparr>users := (users s)(u \<mapsto> fst (txn d a))\<rparr>)"
  using assms
  by (simp add: deduct_credits_def user_ref_def no_pause_hook Let_def split: prod.splits)

lemma txn_exact:
  assumes "credits_used d = Some u0" "credits_remaining d = Some r"
    and "is_double u0" "is_double r" "is_double (u0 + a)" "is_double (r - a)"
  shows "txn d a = (d\<lparr>credits_remaining := Some (max (r - a) 0),
                       credits_used := Some (u0 + a)\<rparr>, max (r - a) 0)"
  using assms by (simp add: txn_def Let_def float_field_def is_double_def)

lemma deduct_all_fields:
  assumes "users s u = Some d" "\<not> odd (slash_count u)"
    and "credits_used d = Some u0" "credits_remaining d = Some r"
    and "is_double u0" "is_double r" "0 \<le> r"
    and "\<forall>a \<in> set amounts. 0 \<le> a" "exact_run u0 r amounts"
  shows "credits_after pause s u amounts =
           Some (credits_total d, Some (u0 + sum_list amounts),
                 Some (max 0 (r - sum_list amounts)))"
  using assms
proof (induction amounts arbitrary: s d u0 r)
  case Nil
  then show ?case by (simp add: credits_after_def credit_fields_def)
next
  case (Cons a amounts)
  from Cons.prems(9) have ex: "is_double (u0 + a)" "is_double (r - a)"
      "exact_run (u0 + a) (max (r - a) 0) amounts"
    by simp_all
  let ?d = "d\<lparr>credits_remaining := Some (max (r - a) 0), credits_used := Some (u0 + a)\<rparr>"
  let ?s = "s\<lparr>users := (users s)(u \<mapsto> ?d)\<rparr>"
  have t: "txn d a = (?d, max (r - a) 0)"
    by (rule txn_exact [OF Cons.prems(3,4,5,6) ex(1,2)])
  have step: "deduct_credits pause s u a = Inr ?s"
    unfolding deduct_credits_step [OF Cons.prems(1,2)] t by simp
  have a: "0 \<le> a" using Cons.prems(8) by simp
  have d': "users ?s u = Some ?d" "credits_used ?d = Some (u0 + a)"
           "credits_remaining ?d = Some (max (r - a) 0)" "credits_total ?d = credits_total d"
    by simp_all
  have "credits_after pause ?s u amounts =
          Some (credits_total ?d, Some (u0 + a + sum_list amounts),
                Some (max 0 (max (r - a) 0 - sum_list amounts)))"
    using Cons.prems(8) ex
    by (intro Cons.IH [OF d'(1) Cons.prems(2) d'(2) d'(3)]) (simp_all add: is_double_max_0)
  moreover have "max 0 (max (r - a) 0 - sum_list amounts) = max 0 (r - (a + sum_list amounts))"
  proof -
    have "0 \<le> sum_list amounts" using Cons.prems(8) by (simp add: sum_list_nonneg)
    then show ?thesis by (simp add: max_def)
  qed
  ultimately show ?case
    using step d'(4) by (simp add: credits_after_def add.assoc)
qed

text \<open>
  Floats do round: three deductions of 0.1 from a total of 1 leave
  \<open>credits_used = 0.30000000000000004\<close> and \<open>credits_remaining = 0.7000000000000001\<close>,
  whose sum is above the total. The results on sums below are therefore stated for runs
  of deductions in which every float operation is exact, \<open>exact_run\<close>; amounts on a
  common binary grid, such as whole credits or quarters, are of this kind
  (\<open>exact_run_dyadic\<close>).
\<close>

lemma deduct_rounding_example:
  "credits_after sample_hook (empty_store\<lparr>users := [''u1'' \<mapsto> fresh_user 1]\<rparr>) ''u1''
     (replicate 3 (round_double (1 / 10)))
   = Some (Some 1, Some (1351079888211149 / 4503599627370496),
           Some (6305039478318695 / 9007199254740992))"
proof -
  have r: "round_double (1 / 10) = 3602879701896397 / 36028797018963968"
    "round_double 1 = 1"
    "round_double (1 - 3602879701896397 / 36028797018963968) = 8106479329266893 / 9007199254740992"
    "round_double (0 + 3602879701896397 / 36028797018963968) = 3602879701896397 / 36028797018963968"
    "round_double (8106479329266893 / 9007199254740992) = 8106479329266893 / 9007199254740992"
    "round_double (3602879701896397 / 36028797018963968) = 3602879701896397 / 36028797018963968"
    "round_double (8106479329266893 / 9007199254740992 - 3602879701896397 / 36028797018963968)
       = 3602879701896397 / 4503599627370496"
    "round_double (3602879701896397 / 36028797018963968 + 3602879701896397 / 36028797018963968)
       = 3602879701896397 / 18014398509481984"
    "round_double (3602879701896397 / 4503599627370496) = 3602879701896397 / 4503599627370496"
    "round_double (3602879701896397 / 18014398509481984) = 3602879701896397 / 18014398509481984"
    "round_double (3602879701896397 / 4503599627370496 - 3602879701896397 / 36028797018963968)
       = 6305039478318695 / 9007199254740992"
    "round_double (3602879701896397 / 18014398509481984 + 3602879701896397 / 36028797018963968)
       = 1351079888211149 / 4503599627370496"
    by code_simp+
  have n: "round_double (32425917317067571 / 36028797018963968) = 8106479329266893 / 9007199254740992"
    "round_double (28823037615171175 / 36028797018963968) = 3602879701896397 / 4503599627370496"
    "round_double (10808639105689191 / 36028797018963968) = 1351079888211149 / 4503599627370496"
    "round_double (25220157913274779 / 36028797018963968) = 6305039478318695 / 9007199254740992"
    by code_simp+
  have v: "\<not> odd (slash_count ''u1'')" by (simp add: slash_count_def)
  let ?a = "3602879701896397 / 36028797018963968 :: rat"
  let ?d0 = "fresh_user 1"
  let ?d1 = "?d0\<lparr>credits_remaining := Some (8106479329266893 / 9007199254740992),
                  credits_used := Some ?a\<rparr>"
  let ?d2 = "?d0\<lparr>credits_remaining := Some (3602879701896397 / 4503599627370496),
                  credits_used := Some (3602879701896397 / 18014398509481984)\<rparr>"
  let ?d3 = "?d0\<lparr>credits_remaining := Some (6305039478318695 / 9007199254740992),
                  credits_used := Some (1351079888211149 / 4503599627370496)\<rparr>"
  have t: "fst (txn ?d0 ?a) = ?d1" "fst (txn ?d1 ?a) = ?d2" "fst (txn ?d2 ?a) = ?d3"
    by (simp_all add: txn_def Let_def float_field_def fresh_user_def round_double_0 r n)
  have s: "deduct_credits sample_hook (empty_store\<lparr>users := [''u1'' \<mapsto> d]\<rparr>) ''u1'' ?a
             = Inr (empty_store\<lparr>users := [''u1'' \<mapsto> fst (txn d ?a)]\<rparr>)" for d
    using deduct_credits_step [of "empty_store\<lparr>users := [''u1'' \<mapsto> d]\<rparr>" "''u1''" d, OF _ v]
    by simp
  have "credits_after sample_hook (empty_store\<lparr>users := [''u1'' \<mapsto> ?d0]\<rparr>) ''u1''
          (replicate 3 (round_double (1 / 10)))
        = Some (credits_total ?d3, credits_used ?d3, credits_remaining ?d3)"
    by (simp add: credits_after_def r(1) numeral_3_eq_3 s t credit_fields_def)
  then show ?thesis by (simp add: fresh_user_def)
qed

text \<open>
  C1 as stated fails once the deductions exceed the initial total: \<open>credits_used\<close>
  keeps growing while \<open>credits_remaining\<close> stops at 0.
\<close>

theorem deduct_all_totals_counterexample:
  "credits_after sample_hook (empty_store\<lparr>users := [''u1'' \<mapsto> fresh_user 10]\<rparr>) ''u1'' [15]
     = Some (Some 10, Some 15, Some 0)
   \<and> credits_after sample_hook (empty_store\<lparr>users := [''u1'' \<mapsto> fresh_user 10]\<rparr>) ''u1'' [15]
     \<noteq> Some (Some 10, Some (min 10 (sum_list [15])), Some (max 0 (10 - sum_list [15])))"
proof -
  have r: "round_double 10 = 10" "round_double 15 = 15" "round_double (- 5) = - 5"
    by (simp_all add: is_double_round sample_doubles)
  have "txn (fresh_user 10) 15 =
          ((fresh_user 10)\<lparr>credits_remaining := Some 0, credits_used := Some 15\<rparr>, 0)"
    by (simp add: txn_def Let_def float_field_def fresh_user_def round_double_0 r)
  then have "credits_after sample_hook (empty_store\<lparr>users := [''u1'' \<mapsto> fresh_user 10]\<rparr>)
               ''u1'' [15] = Some (Some 10, Some 15, Some 0)"
    by (simp add: credits_after_def deduct_credits_def user_ref_def slash_count_def
          no_pause_hook credit_fields_def empty_store_def fresh_user_def)
  then show ?thesis by simp
qed

text \<open>
  C1, amended. From \<open>(total, used, remaining) = (initial_total, 0, initial_total)\<close>
  with \<open>initial_total \<ge> 0\<close> a float, after deductions of non-negative amounts summing
  to \<open>S\<close>, none of whose float additions and subtractions rounds or overflows
  (\<open>exact_run\<close>), the stored fields are \<open>used = S\<close> and
  \<open>remaining = max(0, initial_total - S)\<close>, the total is as before, and
  \<open>used + remaining = max(initial_total, S)\<close>. As long as \<open>S \<le> initial_total\<close>
  this is \<open>used = min(initial_total, S)\<close> and \<open>used + remaining = initial_total\<close>.
  The user id is one that names a document (\<open>slash_count\<close> even).
\<close>

theorem deduct_all_totals:
  assumes "users s u = Some d" "\<not> odd (slash_count u)"
    and "credits_total d = Some initial_total" "credits_used d = Some 0"
    and "credits_remaining d = Some initial_total"
    and "is_double initial_total" "0 \<le> initial_total"
    and "\<forall>a \<in> set amounts. 0 \<le> a" "exact_run 0 initial_total amounts"
  shows "credits_after pause s u amounts =
           Some (Some initial_total, Some (sum_list amounts),
                 Some (max 0 (initial_total - sum_list amounts)))
       \<and> sum_list amounts + max 0 (initial_total - sum_list amounts)
           = max initial_total (sum_list amounts)
       \<and> (sum_list amounts \<le> initial_total \<longrightarrow>
            sum_list amounts = min initial_total (sum_list amounts)
            \<and> sum_list amounts + max 0 (initial_total - sum_list amounts) = initial_total)"
proof -
  have "credits_after pause s u amounts =
           Some (credits_total d, Some (0 + sum_list amounts),
                 Some (max 0 (initial_total - sum_list amounts)))"
    by (rule deduct_all_fields [OF assms(1,2,4,5) is_double_0 assms(6,7,8,9)])
  then show ?thesis using assms(3) by (simp add: max_def min_def)
qed

theorem deduct_all_totals_witness:
  "credits_after sample_hook (empty_store\<lparr>users := [''u1'' \<mapsto> fresh_user 10]\<rparr>) ''u1'' [4, 3]
     = Some (Some 10, Some 7, Some 3)
   \<and> credits_after sample_hook (empty_store\<lparr>users := [''u1'' \<mapsto> fresh_user 10]\<rparr>) ''u1'' [4, 8]
     = Some (Some 10, Some 12, Some 0)
   \<and> credits_after sample_hook (empty_store\<lparr>users := [''u1'' \<mapsto> fresh_user 10]\<rparr>) ''u1'' [1 / 4]
     = Some (Some 10, Some (1 / 4), Some (39 / 4))"
proof -
  let ?s = "empty_store\<lparr>users := [''u1'' \<mapsto> fresh_user 10]\<rparr>"
  have u: "users ?s ''u1'' = Some (fresh_user 10)" by (simp add: empty_store_def)
  have v: "\<not> odd (slash_count ''u1'')" by (simp add: slash_count_def)
  have f: "credits_total (fresh_user 10) = Some 10" "credits_used (fresh_user 10) = Some 0"
          "credits_remaining (fresh_user 10) = Some 10"
    by (simp_all add: fresh_user_def)
  have p: "(0::rat) \<le> 10" "\<forall>a \<in> set [4, 3 :: rat]. 0 \<le> a" "\<forall>a \<in> set [4, 8 :: rat]. 0 \<le> a"
    "\<forall>a \<in> set [1 / 4 :: rat]. 0 \<le> a"
    by simp_all
  have e: "exact_run 0 10 [4, 3]" "exact_run 0 10 [4, 8]" "exact_run 0 10 [1 / 4]"
    by (simp_all add: sample_doubles)
  from deduct_all_totals [OF u v f sample_doubles(1) p(1) p(2) e(1), of sample_hook]
       deduct_all_totals [OF u v f sample_doubles(1) p(1) p(3) e(2), of sample_hook]
       deduct_all_totals [OF u v f sample_doubles(1) p(1) p(4) e(3), of sample_hook]
  show ?thesis by simp
qed

text \<open>
  C2. For a user with \<open>credits_remaining = r > 0\<close>, deducting exactly \<open>r\<close> commits
  \<open>credits_remaining = 0\<close> (and \<open>credits_used\<close> raised by \<open>r\<close>, rounded), as the
  claim says, but the pause hook is not invoked: the import of
  \<open>pause_composio_trigger\<close> fails, since services/composio/composio\_manager.py binds
  no such name, the handler around it prints the failure, and the log of hook calls is
  what it was. The same holds for every amount: no deduction invokes the hook, also when
  the committed remaining is \<open>\<le> 0\<close>. The debit stays committed.
\<close>

theorem deduct_exact_remaining_no_pause:
  assumes "users s u = Some d" "\<not> odd (slash_count u)"
    and "credits_remaining d = Some r" "0 < r" "is_double r"
  shows "deduct_credits pause s u r =
           Inr (s\<lparr>users := (users s)(u \<mapsto>
                  d\<lparr>credits_remaining := Some 0,
                    credits_used := Some (round_double (float_field (credits_used d) + r))\<rparr>)\<rparr>)
       \<and> (\<forall>a. \<exists>s'. deduct_credits pause s u a = Inr s'
              \<and> users s' = (users s)(u \<mapsto> fst (txn d a))
              \<and> pause_calls s' = pause_calls s)"
proof -
  have t: "txn d r = (d\<lparr>credits_remaining := Some 0,
                        credits_used := Some (round_double (float_field (credits_used d) + r))\<rparr>, 0)"
    using assms(3,5) by (simp add: txn_def Let_def float_field_def is_double_round round_double_0)
  have exact: "deduct_credits pause s u r =
           Inr (s\<lparr>users := (users s)(u \<mapsto>
                  d\<lparr>credits_remaining := Some 0,
                    credits_used := Some (round_double (float_field (credits_used d) + r))\<rparr>)\<rparr>)"
    unfolding deduct_credits_step [OF assms(1,2)] t by simp
  have general: "\<exists>s'. deduct_credits pause s u a = Inr s'
              \<and> users s' = (users s)(u \<mapsto> fst (txn d a))
              \<and> pause_calls s' = pause_calls s" for a
    unfolding deduct_credits_step [OF assms(1,2)] by simp
  from exact general show ?thesis by blast
qed

theorem deduct_exact_remaining_no_pause_witness:
  "map_sum id (\<lambda>s'. (credit_fields s' ''u1'', pause_calls s'))
        (deduct_credits sample_hook (empty_store\<lparr>users := [''u1'' \<mapsto> fresh_user 10]\<rparr>) ''u1'' 10)
      = Inr (Some (Some 10, Some 10, Some 0), [])"
proof -
  let ?s = "empty_store\<lparr>users := [''u1'' \<mapsto> fresh_user 10]\<rparr>"
  have u: "users ?s ''u1'' = Some (fresh_user 10)" by (simp add: empty_store_def)
  have v: "\<not> odd (slash_count ''u1'')" by (simp add: slash_count_def)
  have f: "credits_remaining (fresh_user 10) = Some 10" by (simp add: fresh_user_def)
  have p: "(0::rat) < 10" by simp
  have r: "round_double 10 = 10" by (simp add: is_double_round sample_doubles)
  from deduct_exact_remaining_no_pause [OF u v f p sample_doubles(1), of sample_hook]
  show ?thesis
    by (simp add: credit_fields_def empty_store_def fresh_user_def float_field_def
          round_double_0 r)
qed

section \<open>Webhook gate\<close>





section \<open>Status recomputation\<close>

lemma status_fields_parsed:
  assumes "s \<noteq> []" and "parse (replace_Z s) = Some d"
  shows "status_fields parse (PStr s) today =
           (if d < today then (''overdue'', today - d, True)
            else if d = today then (''due_today'', 0, False)
            else (''active'', 0, False))"
  using assms by (simp add: status_fields_def deadline_date_of_def)

lemma status_fields_unparseable:
  assumes "parse (replace_Z s) = None"
  shows "status_fields parse (PStr s) today = (''no_deadline'', 0, False)"
  using assms by (simp add: status_fields_def deadline_date_of_def)

lemma status_fields_null:
  "status_fields parse PNone today = (''no_deadline'', 0, False)"
  by (simp add: status_fields_def)

text \<open>
  C3. For a commitment that is not completed: a non-empty \<open>deadline_iso\<close> string that
  parses to a date \<open>d\<close> gives \<open>(overdue, today - d, true)\<close> when \<open>d < today\<close>,
  \<open>(due_today, 0, false)\<close> when \<open>d = today\<close> and \<open>(active, 0, false)\<close> when
  \<open>d > today\<close>; a missing, null or unparseable \<open>deadline_iso\<close> gives
  \<open>(no_deadline, 0, false)\<close>. A deadline one day before today gives
  \<open>days_overdue = 1\<close>. No other field of the commitment changes.
\<close>

theorem recalculate_status_cases:
  assumes "\<not> truthy (py_get c ''completed'')"
  shows "(\<forall>s d. c ''deadline_iso'' = Some (PStr s) \<and> s \<noteq> [] \<and> parse (replace_Z s) = Some d
              \<and> d < today \<longrightarrow>
            recalculate_status parse c today =
              c(''status'' \<mapsto> PStr ''overdue'', ''days_overdue'' \<mapsto> PInt (today - d),
                ''overdue_flag'' \<mapsto> PBool True))
       \<and> (\<forall>s. c ''deadline_iso'' = Some (PStr s) \<and> s \<noteq> [] \<and> parse (replace_Z s) = Some today
              \<longrightarrow>
            recalculate_status parse c today =
              c(''status'' \<mapsto> PStr ''due_today'', ''days_overdue'' \<mapsto> PInt 0,
                ''overdue_flag'' \<mapsto> PBool False))
       \<and> (\<forall>s d. c ''deadline_iso'' = Some (PStr s) \<and> s \<noteq> [] \<and> parse (replace_Z s) = Some d
              \<and> d > today \<longrightarrow>
            recalculate_status parse c today =
              c(''status'' \<mapsto> PStr ''active'', ''days_overdue'' \<mapsto> PInt 0,
                ''overdue_flag'' \<mapsto> PBool False))
       \<and> ((c ''deadline_iso'' = None \<or> c ''deadline_iso'' = Some PNone
            \<or> (\<exists>s. c ''deadline_iso'' = Some (PStr s) \<and> parse (replace_Z s) = None)) \<longrightarrow>
            recalculate_status parse c today =
              c(''status'' \<mapsto> PStr ''no_deadline'', ''days_overdue'' \<mapsto> PInt 0,
                ''overdue_flag'' \<mapsto> PBool False))
       \<and> (\<forall>s. c ''deadline_iso'' = Some (PStr s) \<and> s \<noteq> []
              \<and> parse (replace_Z s) = Some (today - 1) \<longrightarrow>
            recalculate_status parse c today ''days_overdue'' = Some (PInt 1)
            \<and> recalculate_status parse c today ''status'' = Some (PStr ''overdue''))"
proof -
  have nc: "truthy (py_get c ''completed'') = False"
    using assms by simp
  have parsed: "recalculate_status parse c today =
           (case (if d < today then (''overdue'', today - d, True)
                  else if d = today then (''due_today'', 0, False)
                  else (''active'', 0, False)) of
              (st, dv, fl) \<Rightarrow> c(''status'' \<mapsto> PStr st, ''days_overdue'' \<mapsto> PInt dv,
                                ''overdue_flag'' \<mapsto> PBool fl))"
    if "c ''deadline_iso'' = Some (PStr s)" "s \<noteq> []" "parse (replace_Z s) = Some d"
    for s d
    using that nc status_fields_parsed [of s parse d today]
    by (simp add: recalculate_status_def py_get_def)
  have none: "recalculate_status parse c today =
      c(''status'' \<mapsto> PStr ''no_deadline'', ''days_overdue'' \<mapsto> PInt 0,
        ''overdue_flag'' \<mapsto> PBool False)"
    if "c ''deadline_iso'' = None \<or> c ''deadline_iso'' = Some PNone
          \<or> (\<exists>s. c ''deadline_iso'' = Some (PStr s) \<and> parse (replace_Z s) = None)"
    using that nc status_fields_null [of parse today]
    by (auto simp: recalculate_status_def py_get_def status_fields_unparseable)
  show ?thesis
  proof (intro conjI allI impI)
    fix s d
    assume "c ''deadline_iso'' = Some (PStr s) \<and> s \<noteq> [] \<and> parse (replace_Z s) = Some d \<and> d < today"
    then show "recalculate_status parse c today =
              c(''status'' \<mapsto> PStr ''overdue'', ''days_overdue'' \<mapsto> PInt (today - d),
                ''overdue_flag'' \<mapsto> PBool True)"
      using parsed [of s d] by simp
  next
    fix s
    assume "c ''deadline_iso'' = Some (PStr s) \<and> s \<noteq> [] \<and> parse (replace_Z s) = Some today"
    then show "recalculate_status parse c today =
              c(''status'' \<mapsto> PStr ''due_today'', ''days_overdue'' \<mapsto> PInt 0,
                ''overdue_flag'' \<mapsto> PBool False)"
      using parsed [of s today] by simp
  next
    fix s d
    assume "c ''deadline_iso'' = Some (PStr s) \<and> s \<noteq> [] \<and> parse (replace_Z s) = Some d \<and> d > today"
    then show "recalculate_status parse c today =
              c(''status'' \<mapsto> PStr ''active'', ''days_overdue'' \<mapsto> PInt 0,
                ''overdue_flag'' \<mapsto> PBool False)"
      using parsed [of s d] by simp
  next
    assume "c ''deadline_iso'' = None \<or> c ''deadline_iso'' = Some PNone
            \<or> (\<exists>s. c ''deadline_iso'' = Some (PStr s) \<and> parse (replace_Z s) = None)"
    then show "recalculate_status parse c today =
              c(''status'' \<mapsto> PStr ''no_deadline'', ''days_overdue'' \<mapsto> PInt 0,
                ''overdue_flag'' \<mapsto> PBool False)"
      by (rule none)
  next
    fix s
    assume h: "c ''deadline_iso'' = Some (PStr s) \<and> s \<noteq> [] \<and> parse (replace_Z s) = Some (today - 1)"
    then show "recalculate_status parse c today ''days_overdue'' = Some (PInt 1)"
      using parsed [of s "today - 1"] by simp
    from h show "recalculate_status parse c today ''status'' = Some (PStr ''overdue'')"
      using parsed [of s "today - 1"] by simp
  qed
qed

theorem recalculate_status_cases_witness:
  "\<not> truthy (py_get [''what'' \<mapsto> PStr ''Send report'', ''deadline_iso'' \<mapsto> PStr ''2025-11-22''] ''completed'')
   \<and> recalculate_status sample_fromisoformat
        [''what'' \<mapsto> PStr ''Send report'', ''deadline_iso'' \<mapsto> PStr ''2025-11-22''] 739578
      = [''what'' \<mapsto> PStr ''Send report'', ''deadline_iso'' \<mapsto> PStr ''2025-11-22'',
         ''status'' \<mapsto> PStr ''overdue'', ''days_overdue'' \<mapsto> PInt 1,
         ''overdue_flag'' \<mapsto> PBool True]
   \<and> recalculate_status sample_fromisoformat
        [''what'' \<mapsto> PStr ''Send report'', ''deadline_iso'' \<mapsto> PStr ''2025-11-22''] 739577
      = [''what'' \<mapsto> PStr ''Send report'', ''deadline_iso'' \<mapsto> PStr ''2025-11-22'',
         ''status'' \<mapsto> PStr ''due_today'', ''days_overdue'' \<mapsto> PInt 0,
         ''overdue_flag'' \<mapsto> PBool False]
   \<and> recalculate_status sample_fromisoformat
        [''what'' \<mapsto> PStr ''Send report'', ''deadline_iso'' \<mapsto> PStr ''2025-11-22''] 739570
      = [''what'' \<mapsto> PStr ''Send report'', ''deadline_iso'' \<mapsto> PStr ''2025-11-22'',
         ''status'' \<mapsto> PStr ''active'', ''days_overdue'' \<mapsto> PInt 0,
         ''overdue_flag'' \<mapsto> PBool False]
   \<and> recalculate_status sample_fromisoformat [''what'' \<mapsto> PStr ''Optional task''] 739578
      = [''what'' \<mapsto> PStr ''Optional task'',
         ''status'' \<mapsto> PStr ''no_deadline'', ''days_overdue'' \<mapsto> PInt 0,
         ''overdue_flag'' \<mapsto> PBool False]"
proof -
  let ?c = "[''what'' \<mapsto> PStr ''Send report'', ''deadline_iso'' \<mapsto> PStr ''2025-11-22'']"
  let ?n = "[''what'' \<mapsto> PStr ''Optional task'']"
  have h: "\<not> truthy (py_get ?c ''completed'')" "\<not> truthy (py_get ?n ''completed'')"
    by (simp_all add: py_get_def)
  have p: "?c ''deadline_iso'' = Some (PStr ''2025-11-22'')" "''2025-11-22'' \<noteq> []"
          "sample_fromisoformat (replace_Z ''2025-11-22'') = Some 739577"
          "?n ''deadline_iso'' = None"
    by (simp_all add: sample_fromisoformat_def replace_Z_def)
  have o: "(739577::int) < 739578" "(739577::int) > 739570" "(739578::int) - 739577 = 1" by simp_all
  from recalculate_status_cases [OF h(1), of sample_fromisoformat 739578] p o
  have a: "recalculate_status sample_fromisoformat ?c 739578 =
             ?c(''status'' \<mapsto> PStr ''overdue'', ''days_overdue'' \<mapsto> PInt 1,
                ''overdue_flag'' \<mapsto> PBool True)"
    by metis
  from recalculate_status_cases [OF h(1), of sample_fromisoformat 739577] p
  have b: "recalculate_status sample_fromisoformat ?c 739577 =
             ?c(''status'' \<mapsto> PStr ''due_today'', ''days_overdue'' \<mapsto> PInt 0,
                ''overdue_flag'' \<mapsto> PBool False)"
    by metis
  from recalculate_status_cases [OF h(1), of sample_fromisoformat 739570] p o
  have c: "recalculate_status sample_fromisoformat ?c 739570 =
             ?c(''status'' \<mapsto> PStr ''active'', ''days_overdue'' \<mapsto> PInt 0,
                ''overdue_flag'' \<mapsto> PBool False)"
    by metis
  from recalculate_status_cases [OF h(2), of sample_fromisoformat 739578] p
  have d: "recalculate_status sample_fromisoformat ?n 739578 =
             ?n(''status'' \<mapsto> PStr ''no_deadline'', ''days_overdue'' \<mapsto> PInt 0,
                ''overdue_flag'' \<mapsto> PBool False)"
    by metis
  from h a b c d show ?thesis by simp
qed

subsection \<open>Completed commitments\<close>

lemma setdefault_upd:
  "m(k \<mapsto> py_get_default m k v) = [k \<mapsto> v] ++ m"
  by (rule ext) (simp add: py_get_default_def map_add_def split: option.splits)

lemma completed_branch_eq:
  assumes "truthy (py_get c ''completed'')"
  shows "recalculate_status parse c today =
           [''overdue_flag'' \<mapsto> PBool False] ++ ([''days_overdue'' \<mapsto> PInt 0] ++
             ([''status'' \<mapsto> PStr ''no_deadline''] ++ c))"
  using assms by (simp add: recalculate_status_def Let_def setdefault_upd)

text \<open>
  C7 as stated fails: a completed commitment that lacks \<open>status\<close> comes back with
  that key added.
\<close>

theorem recalculate_status_completed_counterexample:
  "recalculate_status sample_fromisoformat [''completed'' \<mapsto> PBool True] 739578
     \<noteq> [''completed'' \<mapsto> PBool True]"
proof
  assume "recalculate_status sample_fromisoformat [''completed'' \<mapsto> PBool True] 739578
     = [''completed'' \<mapsto> PBool True]"
  then have "recalculate_status sample_fromisoformat [''completed'' \<mapsto> PBool True] 739578 ''status''
     = [''completed'' \<mapsto> PBool True] ''status''"
    by simp
  then show False
    by (simp add: recalculate_status_def py_get_def py_get_default_def)
qed

text \<open>
  C7, amended. For a commitment whose \<open>completed\<close> is truthy, recomputation keeps
  every field the commitment has at its value; a key it lacks stays absent unless it is
  \<open>status\<close>, \<open>days_overdue\<close> or \<open>overdue_flag\<close>, which are added with the
  defaults \<open>no_deadline\<close>, \<open>0\<close> and \<open>False\<close>; when the commitment has all
  three, it is returned unchanged.
\<close>

theorem recalculate_status_completed:
  assumes "truthy (py_get c ''completed'')"
  shows "(\<forall>k \<in> dom c. recalculate_status parse c today k = c k)
       \<and> (\<forall>k. k \<notin> dom c \<longrightarrow> recalculate_status parse c today k =
              [''status'' \<mapsto> PStr ''no_deadline'', ''days_overdue'' \<mapsto> PInt 0,
               ''overdue_flag'' \<mapsto> PBool False] k)
       \<and> ({''status'', ''days_overdue'', ''overdue_flag''} \<subseteq> dom c \<longrightarrow>
            recalculate_status parse c today = c)"
proof -
  note eq = completed_branch_eq [OF assms, of parse today]
  have keep: "\<forall>k \<in> dom c. recalculate_status parse c today k = c k"
    unfolding eq by (auto simp: map_add_def)
  have add: "\<forall>k. k \<notin> dom c \<longrightarrow> recalculate_status parse c today k =
              [''status'' \<mapsto> PStr ''no_deadline'', ''days_overdue'' \<mapsto> PInt 0,
               ''overdue_flag'' \<mapsto> PBool False] k"
    unfolding eq by (simp add: map_add_def dom_def)
  have same: "recalculate_status parse c today = c"
    if "{''status'', ''days_overdue'', ''overdue_flag''} \<subseteq> dom c"
  proof (rule ext)
    fix k
    show "recalculate_status parse c today k = c k"
    proof (cases "k \<in> dom c")
      case True
      with keep show ?thesis by blast
    next
      case False
      with that have "k \<noteq> ''status''" "k \<noteq> ''days_overdue''" "k \<noteq> ''overdue_flag''"
        by blast+
      with add False show ?thesis by (simp add: dom_def)
    qed
  qed
  from keep add same show ?thesis by blast
qed

theorem recalculate_status_completed_witness:
  "truthy (py_get [''completed'' \<mapsto> PBool True, ''status'' \<mapsto> PStr ''completed''] ''completed'')
   \<and> ''status'' \<in> dom [''completed'' \<mapsto> PBool True, ''status'' \<mapsto> PStr ''completed'']
   \<and> recalculate_status sample_fromisoformat
        [''completed'' \<mapsto> PBool True, ''status'' \<mapsto> PStr ''completed''] 739578 ''status''
       = Some (PStr ''completed'')
   \<and> ''days_overdue'' \<notin> dom [''completed'' \<mapsto> PBool True, ''status'' \<mapsto> PStr ''completed'']
   \<and> recalculate_status sample_fromisoformat
        [''completed'' \<mapsto> PBool True, ''status'' \<mapsto> PStr ''completed''] 739578 ''days_overdue''
       = Some (PInt 0)
   \<and> recalculate_status sample_fromisoformat
        [''completed'' \<mapsto> PBool True, ''status'' \<mapsto> PStr ''completed'',
         ''days_overdue'' \<mapsto> PInt 3, ''overdue_flag'' \<mapsto> PBool True] 739578
       = [''completed'' \<mapsto> PBool True, ''status'' \<mapsto> PStr ''completed'',
          ''days_overdue'' \<mapsto> PInt 3, ''overdue_flag'' \<mapsto> PBool True]"
proof -
  let ?c = "[''completed'' \<mapsto> PBool True, ''status'' \<mapsto> PStr ''completed'']"
  let ?k = "[''completed'' \<mapsto> PBool True, ''status'' \<mapsto> PStr ''completed'',
             ''days_overdue'' \<mapsto> PInt 3, ''overdue_flag'' \<mapsto> PBool True]"
  have h: "truthy (py_get ?c ''completed'')" "truthy (py_get ?k ''completed'')"
    by (simp_all add: py_get_def)
  have d: "''status'' \<in> dom ?c" "''days_overdue'' \<notin> dom ?c"
    "{''status'', ''days_overdue'', ''overdue_flag''} \<subseteq> dom ?k"
    by simp_all
  from recalculate_status_completed [OF h(2), of sample_fromisoformat 739578] d(3)
  have k: "recalculate_status sample_fromisoformat ?k 739578 = ?k" by blast
  from recalculate_status_completed [OF h(1), of sample_fromisoformat 739578] h d k
  show ?thesis by auto
qed

section \<open>Deadline normalisation\<close>

subsection \<open>Weekday arithmetic\<close>

lemma weekday_range: "0 \<le> weekday d \<and> weekday d < 7"
  by (simp add: weekday_def)







subsection \<open>The four phrases\<close>
















section \<open>Connection history\<close>

lemma update_connection_fields:
  assumes "users s u = Some d"
  shows "connection_field (snd (update_connection s u updates)) u k =
           (connection_of d ++ map_of updates) k"
    and "fst (update_connection s u updates)"
    and "u' \<noteq> u \<Longrightarrow> users (snd (update_connection s u updates)) u' = users s u'"
    and "credit_fields (snd (update_connection s u updates)) u = credit_fields s u"
    and "commitments (snd (update_connection s u updates)) = commitments s"
  using assms by (simp_all add: update_connection_def connection_field_def credit_fields_def)

text \<open>
  C9. For a user whose connection state has \<open>first_connected_at\<close> set, disconnecting
  and reconnecting both leave \<open>first_connected_at\<close> and \<open>last_sync_time\<close> as they
  were. Disconnecting sets \<open>composio_enabled\<close> to false and both trigger ids to null
  and changes no other connection field, no credit field, no other user and no
  commitment.
\<close>

theorem connection_history_preserved:
  assumes "users s u = Some d" "composio_connection d = Some m"
    and "m ''first_connected_at'' = Some v"
  shows "(let s' = snd (mark_disconnection s u) in
            connection_field s' u ''first_connected_at'' = Some v
          \<and> connection_field s' u ''last_sync_time'' = m ''last_sync_time''
          \<and> connection_field s' u ''composio_enabled'' = Some (PBool False)
          \<and> connection_field s' u ''inbox_trigger_id'' = Some PNone
          \<and> connection_field s' u ''sent_trigger_id'' = Some PNone
          \<and> (\<forall>k. k \<notin> {''composio_enabled'', ''inbox_trigger_id'', ''sent_trigger_id''} \<longrightarrow>
                 connection_field s' u k = m k)
          \<and> credit_fields s' u = credit_fields s u
          \<and> (\<forall>u'. u' \<noteq> u \<longrightarrow> users s' u' = users s u')
          \<and> commitments s' = commitments s)
       \<and> (let s' = snd (mark_reconnection s u entity_id inbox_trigger_id sent_trigger_id) in
            connection_field s' u ''first_connected_at'' = Some v
          \<and> connection_field s' u ''last_sync_time'' = m ''last_sync_time'')"
proof -
  have c: "connection_of d = m" using assms(2) by (simp add: connection_of_def)
  note f = update_connection_fields [OF assms(1)]
  show ?thesis
    unfolding Let_def mark_disconnection_def mark_reconnection_def
    using assms(3) by (simp add: f c map_add_def)
qed

theorem connection_history_preserved_witness:
  "connection_field (snd (mark_disconnection (empty_store\<lparr>users := [''u1'' \<mapsto> connected_user]\<rparr>) ''u1''))
      ''u1'' ''first_connected_at'' = Some (PDatetime 738886)
   \<and> connection_field (snd (mark_disconnection (empty_store\<lparr>users := [''u1'' \<mapsto> connected_user]\<rparr>) ''u1''))
      ''u1'' ''entity_id'' = Some (PStr ''ca_1'')
   \<and> connection_field (snd (mark_disconnection (empty_store\<lparr>users := [''u1'' \<mapsto> connected_user]\<rparr>) ''u1''))
      ''u1'' ''inbox_trigger_id'' = Some PNone
   \<and> connection_field
        (snd (mark_reconnection (empty_store\<lparr>users := [''u1'' \<mapsto> connected_user]\<rparr>) ''u1''
               (PStr ''ca_2'') (PStr ''ti_3'') (PStr ''ti_4'')))
      ''u1'' ''last_sync_time'' = Some (PDatetime 738886)"
proof -
  let ?s = "empty_store\<lparr>users := [''u1'' \<mapsto> connected_user]\<rparr>"
  let ?m = "[''first_connected_at'' \<mapsto> PDatetime 738886, ''is_first_time'' \<mapsto> PBool False,
         ''composio_enabled'' \<mapsto> PBool True, ''inbox_trigger_id'' \<mapsto> PStr ''ti_1'',
         ''sent_trigger_id'' \<mapsto> PStr ''ti_2'', ''entity_id'' \<mapsto> PStr ''ca_1'',
         ''last_sync_time'' \<mapsto> PDatetime 738886]"
  have u: "users ?s ''u1'' = Some connected_user" by (simp add: empty_store_def)
  have m: "composio_connection connected_user = Some ?m" by (simp add: connected_user_def)
  have v: "?m ''first_connected_at'' = Some (PDatetime 738886)" by simp
  have e: "?m ''entity_id'' = Some (PStr ''ca_1'')" "?m ''last_sync_time'' = Some (PDatetime 738886)"
    "''entity_id'' \<notin> {''composio_enabled'', ''inbox_trigger_id'', ''sent_trigger_id''}"
    by simp_all
  from connection_history_preserved [OF u m v, of "PStr ''ca_2''" "PStr ''ti_3''" "PStr ''ti_4''"]
  show ?thesis unfolding Let_def using e by metis
qed


section \<open>Default estimated hours\<close>

lemma default_estimated_hours_positive: "positive (default_estimated_hours ct)"
  by (simp add: default_estimated_hours_def positive_def num_val_def)

lemma default_estimated_hours_not_None: "default_estimated_hours ct \<noteq> PNone"
  by (simp add: default_estimated_hours_def)

lemma post_process_after_hours:
  assumes "ensure_estimated_hours (c(''given_by'' \<mapsto> py_get_default email ''sender'' (PStr []))) = Inr c2"
  shows "\<exists>c'. post_process_commitment fi now er isof fd today email c = Inr c'
              \<and> c' ''estimated_hours'' = c2 ''estimated_hours''"
  using assms
  by (simp add: post_process_commitment_def Let_def split: prod.splits)

lemma post_process_hours_defaulted:
  assumes "py_get c ''estimated_hours'' = PNone"
    and "py_get_default c ''commitment_type'' (PStr []) = PStr t"
  shows "\<exists>c'. post_process_commitment fi now er isof fd today email c = Inr c'
              \<and> c' ''estimated_hours'' = Some (default_estimated_hours (lower t))"
proof -
  let ?c1 = "c(''given_by'' \<mapsto> py_get_default email ''sender'' (PStr []))"
  have "ensure_estimated_hours ?c1 =
          Inr (?c1(''estimated_hours'' \<mapsto> default_estimated_hours (lower t)))"
    using assms by (simp add: ensure_estimated_hours_def py_get_def py_get_default_def)
  from post_process_after_hours [OF this, of fi now er isof fd today]
  show ?thesis by simp
qed

lemma post_process_hours_kept:
  assumes "py_get c ''estimated_hours'' \<noteq> PNone"
  shows "\<exists>c'. post_process_commitment fi now er isof fd today email c = Inr c'
              \<and> c' ''estimated_hours'' = c ''estimated_hours''"
proof -
  let ?c1 = "c(''given_by'' \<mapsto> py_get_default email ''sender'' (PStr []))"
  have "ensure_estimated_hours ?c1 = Inr ?c1"
    using assms by (simp add: ensure_estimated_hours_def py_get_def)
  from post_process_after_hours [OF this, of fi now er isof fd today]
  show ?thesis by simp
qed

lemma post_process_hours_not_null:
  assumes "post_process_commitment fi now er isof fd today email c = Inr c'"
  shows "py_get c' ''estimated_hours'' \<noteq> PNone"
proof (cases "py_get c ''estimated_hours'' = PNone")
  case True
  let ?c1 = "c(''given_by'' \<mapsto> py_get_default email ''sender'' (PStr []))"
  from assms obtain c2 where c2: "ensure_estimated_hours ?c1 = Inr c2"
    by (auto simp: post_process_commitment_def Let_def split: sum.splits)
  have n: "py_get ?c1 ''estimated_hours'' = PNone" using True by (simp add: py_get_def)
  from c2 n obtain t where "c2 ''estimated_hours'' = Some (default_estimated_hours (lower t))"
    by (auto simp: ensure_estimated_hours_def split: pyval.splits)
  with post_process_after_hours [OF c2, of fi now er isof fd today] assms
  show ?thesis by (simp add: py_get_def default_estimated_hours_not_None)
next
  case False
  from post_process_hours_kept [OF False, of fi now er isof fd today email] assms False
  show ?thesis by (simp add: py_get_def)
qed

lemma post_process_commitments_not_null:
  assumes "post_process_commitments fi now er isof fd today email cs = Inr cs'"
  shows "list_all (\<lambda>c'. py_get c' ''estimated_hours'' \<noteq> PNone) cs'"
  using assms
proof (induction cs arbitrary: cs')
  case Nil
  then show ?case by simp
next
  case (Cons c cs)
  from Cons.prems obtain c' rest where
    h: "post_process_commitment fi now er isof fd today email c = Inr c'"
       "post_process_commitments fi now er isof fd today email cs = Inr rest"
       "cs' = c' # rest"
    by (auto split: sum.splits)
  from post_process_hours_not_null [OF h(1)] Cons.IH [OF h(2)] h(3)
  show ?case by simp
qed

text \<open>
  C4 as stated fails: a commitment that passes validation with \<open>estimated_hours = 0\<close>
  keeps that value through post-processing.
\<close>

theorem post_process_estimated_hours_counterexample:
  "valid_commitment (PDict zero_hours_commitment)
   \<and> map_sum id (\<lambda>c'. c' ''estimated_hours'')
        (post_process_commitment sample_fromisoformat_dt sample_now no_explicit_rules
           sample_isoformat sample_fromisoformat 739579 sample_email
           (map_of zero_hours_commitment))
      = Inr (Some (PInt 0))
   \<and> \<not> positive (PInt 0)"
proof -
  have v: "valid_commitment (PDict zero_hours_commitment)"
    by (simp add: valid_commitment_def zero_hours_commitment_def required_fields_def
          is_number_def is_bool_def dict_get_def py_get_def)
  have h: "map_of zero_hours_commitment ''estimated_hours'' = Some (PInt 0)"
    by (simp add: zero_hours_commitment_def)
  then have "py_get (map_of zero_hours_commitment) ''estimated_hours'' \<noteq> PNone"
    by (simp add: py_get_def)
  from post_process_hours_kept [OF this, of sample_fromisoformat_dt sample_now
         no_explicit_rules sample_isoformat sample_fromisoformat 739579 sample_email] h
  have "map_sum id (\<lambda>c'. c' ''estimated_hours'')
        (post_process_commitment sample_fromisoformat_dt sample_now no_explicit_rules
           sample_isoformat sample_fromisoformat 739579 sample_email
           (map_of zero_hours_commitment))
      = Inr (Some (PInt 0))"
    by auto
  with v show ?thesis by (simp add: positive_def num_val_def)
qed

text \<open>
  C4, amended. Post-processing replaces \<open>estimated_hours\<close> only when it is absent
  or null: then it becomes the default of the lower-cased \<open>commitment_type\<close>, found
  by substring in this order (meeting/call 1, email/message/communication 0.5,
  deliverable/report/document 3, presentation 5, feature/development 8, otherwise 2),
  which is positive. A value that is present and not null is kept as it is. So every
  post-processed commitment has a non-null \<open>estimated_hours\<close>.
\<close>

theorem post_process_estimated_hours:
  "(\<forall>t. py_get c ''estimated_hours'' = PNone
         \<and> py_get_default c ''commitment_type'' (PStr []) = PStr t \<longrightarrow>
       (\<exists>c'. post_process_commitment fi now er isof fd today email c = Inr c'
            \<and> c' ''estimated_hours'' = Some (default_estimated_hours (lower t))
            \<and> positive (default_estimated_hours (lower t))))
   \<and> (py_get c ''estimated_hours'' \<noteq> PNone \<longrightarrow>
       (\<exists>c'. post_process_commitment fi now er isof fd today email c = Inr c'
            \<and> c' ''estimated_hours'' = c ''estimated_hours''))
   \<and> (\<forall>cs cs'. post_process_commitments fi now er isof fd today email cs = Inr cs' \<longrightarrow>
         list_all (\<lambda>c'. py_get c' ''estimated_hours'' \<noteq> PNone) cs')
   \<and> (\<forall>ct. let meeting = contains ''meeting'' ct \<or> contains ''call'' ct;
                message = contains ''email'' ct \<or> contains ''message'' ct
                          \<or> contains ''communication'' ct;
                report = contains ''deliverable'' ct \<or> contains ''report'' ct
                         \<or> contains ''document'' ct;
                presentation = contains ''presentation'' ct;
                feature = contains ''feature'' ct \<or> contains ''development'' ct
            in (meeting \<longrightarrow> default_estimated_hours ct = PInt 1)
             \<and> (\<not> meeting \<and> message \<longrightarrow> default_estimated_hours ct = PFloat (1 / 2))
             \<and> (\<not> meeting \<and> \<not> message \<and> report \<longrightarrow> default_estimated_hours ct = PInt 3)
             \<and> (\<not> meeting \<and> \<not> message \<and> \<not> report \<and> presentation \<longrightarrow>
                  default_estimated_hours ct = PInt 5)
             \<and> (\<not> meeting \<and> \<not> message \<and> \<not> report \<and> \<not> presentation \<and> feature \<longrightarrow>
                  default_estimated_hours ct = PInt 8)
             \<and> (\<not> meeting \<and> \<not> message \<and> \<not> report \<and> \<not> presentation \<and> \<not> feature \<longrightarrow>
                  default_estimated_hours ct = PInt 2))"
proof (intro conjI allI impI)
  fix t
  assume "py_get c ''estimated_hours'' = PNone
         \<and> py_get_default c ''commitment_type'' (PStr []) = PStr t"
  then show "\<exists>c'. post_process_commitment fi now er isof fd today email c = Inr c'
            \<and> c' ''estimated_hours'' = Some (default_estimated_hours (lower t))
            \<and> positive (default_estimated_hours (lower t))"
    using post_process_hours_defaulted [of c t fi now er isof fd today email]
    by (simp add: default_estimated_hours_positive)
next
  assume "py_get c ''estimated_hours'' \<noteq> PNone"
  then show "\<exists>c'. post_process_commitment fi now er isof fd today email c = Inr c'
            \<and> c' ''estimated_hours'' = c ''estimated_hours''"
    by (rule post_process_hours_kept)
next
  fix cs cs'
  assume "post_process_commitments fi now er isof fd today email cs = Inr cs'"
  then show "list_all (\<lambda>c'. py_get c' ''estimated_hours'' \<noteq> PNone) cs'"
    by (rule post_process_commitments_not_null)
next
  fix ct
  show "let meeting = contains ''meeting'' ct \<or> contains ''call'' ct;
                message = contains ''email'' ct \<or> contains ''message'' ct
                          \<or> contains ''communication'' ct;
                report = contains ''deliverable'' ct \<or> contains ''report'' ct
                         \<or> contains ''document'' ct;
                presentation = contains ''presentation'' ct;
                feature = contains ''feature'' ct \<or> contains ''development'' ct
            in (meeting \<longrightarrow> default_estimated_hours ct = PInt 1)
             \<and> (\<not> meeting \<and> message \<longrightarrow> default_estimated_hours ct = PFloat (1 / 2))
             \<and> (\<not> meeting \<and> \<not> message \<and> report \<longrightarrow> default_estimated_hours ct = PInt 3)
             \<and> (\<not> meeting \<and> \<not> message \<and> \<not> report \<and> presentation \<longrightarrow>
                  default_estimated_hours ct = PInt 5)
             \<and> (\<not> meeting \<and> \<not> message \<and> \<not> report \<and> \<not> presentation \<and> feature \<longrightarrow>
                  default_estimated_hours ct = PInt 8)
             \<and> (\<not> meeting \<and> \<not> message \<and> \<not> report \<and> \<not> presentation \<and> \<not> feature \<longrightarrow>
                  default_estimated_hours ct = PInt 2)"
    unfolding Let_def default_estimated_hours_def by simp
qed

theorem post_process_estimated_hours_witness:
  "map_sum id (\<lambda>c'. c' ''estimated_hours'')
     (post_process_commitment sample_fromisoformat_dt sample_now no_explicit_rules
        sample_isoformat sample_fromisoformat 739579 sample_email
        [''what'' \<mapsto> PStr ''Join the sync'', ''commitment_type'' \<mapsto> PStr ''Weekly Meeting''])
   = Inr (Some (PInt 1))
   \<and> positive (PInt 1)
   \<and> map_sum id (\<lambda>c'. c' ''estimated_hours'')
     (post_process_commitment sample_fromisoformat_dt sample_now no_explicit_rules
        sample_isoformat sample_fromisoformat 739579 sample_email
        [''what'' \<mapsto> PStr ''Write summary'', ''estimated_hours'' \<mapsto> PFloat (3 / 2)])
   = Inr (Some (PFloat (3 / 2)))
   \<and> map_sum id (list_all (\<lambda>c'. py_get c' ''estimated_hours'' \<noteq> PNone))
     (post_process_commitments sample_fromisoformat_dt sample_now no_explicit_rules
        sample_isoformat sample_fromisoformat 739579 sample_email
        [[''what'' \<mapsto> PStr ''Join the sync'', ''commitment_type'' \<mapsto> PStr ''Weekly Meeting'']])
   = Inr True"
proof -
  let ?c = "[''what'' \<mapsto> PStr ''Join the sync'', ''commitment_type'' \<mapsto> PStr ''Weekly Meeting'']"
  let ?k = "[''what'' \<mapsto> PStr ''Write summary'', ''estimated_hours'' \<mapsto> PFloat (3 / 2)]"
  have a: "py_get ?c ''estimated_hours'' = PNone
         \<and> py_get_default ?c ''commitment_type'' (PStr []) = PStr ''Weekly Meeting''"
    by (simp add: py_get_def py_get_default_def)
  have l: "lower ''Weekly Meeting'' = ''weekly meeting''" by code_simp
  have m: "contains ''meeting'' ''weekly meeting''" by code_simp
  have b: "py_get ?k ''estimated_hours'' \<noteq> PNone" "?k ''estimated_hours'' = Some (PFloat (3 / 2))"
    by (simp_all add: py_get_def)
  note T1 = post_process_estimated_hours [of ?c sample_fromisoformat_dt sample_now
         no_explicit_rules sample_isoformat sample_fromisoformat 739579 sample_email]
  note T2 = post_process_estimated_hours [of ?k sample_fromisoformat_dt sample_now
         no_explicit_rules sample_isoformat sample_fromisoformat 739579 sample_email]
  from T1 a obtain c' where c': "post_process_commitment sample_fromisoformat_dt sample_now
         no_explicit_rules sample_isoformat sample_fromisoformat 739579 sample_email ?c = Inr c'"
      "c' ''estimated_hours'' = Some (default_estimated_hours (lower ''Weekly Meeting''))"
      "positive (default_estimated_hours (lower ''Weekly Meeting''))"
    by blast
  from T1 have "contains ''meeting'' ''weekly meeting'' \<or> contains ''call'' ''weekly meeting''
                  \<longrightarrow> default_estimated_hours ''weekly meeting'' = PInt 1"
    unfolding Let_def by blast
  with m have d: "default_estimated_hours ''weekly meeting'' = PInt 1" by blast
  from T2 b obtain k' where k': "post_process_commitment sample_fromisoformat_dt sample_now
         no_explicit_rules sample_isoformat sample_fromisoformat 739579 sample_email ?k = Inr k'"
      "k' ''estimated_hours'' = Some (PFloat (3 / 2))"
    by auto
  have run: "post_process_commitments sample_fromisoformat_dt sample_now no_explicit_rules
        sample_isoformat sample_fromisoformat 739579 sample_email [?c] = Inr [c']"
    using c'(1) by simp
  from T1 run have "list_all (\<lambda>c'. py_get c' ''estimated_hours'' \<noteq> PNone) [c']"
    by blast
  with run have lst: "map_sum id (list_all (\<lambda>c'. py_get c' ''estimated_hours'' \<noteq> PNone))
     (post_process_commitments sample_fromisoformat_dt sample_now no_explicit_rules
        sample_isoformat sample_fromisoformat 739579 sample_email [?c]) = Inr True"
    by simp
  from c' k' d l lst show ?thesis by simp
qed

section \<open>Delete, then restore\<close>

lemma json_value_native: "json_native v \<Longrightarrow> json_value str_of v = v"
proof (induction v)
  case (PList xs)
  then show ?case by (simp add: list_all_iff map_idI)
next
  case (PDict kvs)
  have "map (\<lambda>(k, v). (k, json_value str_of v)) kvs = kvs"
  proof (rule map_idI)
    fix x assume x: "x \<in> set kvs"
    obtain k v where kv: "x = (k, v)" by (cases x)
    with x PDict.prems have "json_native v" by (auto simp: list_all_iff)
    moreover from x kv have "v \<in> Basic_BNFs.snds x" by simp
    ultimately have "json_value str_of v = v" using PDict.IH x by blast
    with kv show "(case x of (k, v) \<Rightarrow> (k, json_value str_of v)) = x" by simp
  qed
  then show ?case by simp
qed simp_all

lemma json_roundtrip_native:
  assumes "\<forall>v \<in> ran c. json_native v"
  shows "json_roundtrip str_of c = c"
proof (rule ext)
  fix k
  show "json_roundtrip str_of c k = c k"
  proof (cases "c k")
    case None
    then show ?thesis by (simp add: json_roundtrip_def)
  next
    case (Some v)
    then have "v \<in> ran c" by (auto simp: ran_def)
    with assms have "json_value str_of v = v" by (simp add: json_value_native)
    with Some show ?thesis by (simp add: json_roundtrip_def)
  qed
qed

lemma redis_get_setex:
  "now' < now + ttl \<Longrightarrow> redis_get (setex r key ttl now item) now' key = Some item"
  by (simp add: redis_get_def setex_def update_conv')

lemma redis_get_deleted: "redis_get (redis_delete r key) t key = None"
  by (simp add: redis_get_def redis_delete_def delete_conv')

lemma delete_commitment_backed_up:
  assumes "redis_client s = Some r" "reachable r"
    and "get_commitment_by_field s user cid = Some (cid, c)"
  shows "delete_commitment str_of s user cid deleted_at now =
           Inr (s\<lparr>redis_client := Some (setex r (shadow_key user cid) 86400 now
                      \<lparr>si_commitment_id = cid, si_user_id = user,
                       si_data = json_roundtrip str_of c, si_deleted_at = deleted_at\<rparr>),
                  commitments := (commitments s)(user := AList.delete cid (commitments s user))\<rparr>)"
  using assms by (simp add: delete_commitment_def backup_to_redis_def Let_def)

text \<open>
  C8 as stated fails when Redis is not configured: the delete route skips the backup and
  deletes the document, and the restore route answers 400; no document comes back.
\<close>

theorem delete_then_restore_counterexample:
  "map_sum id (\<lambda>s1. map_of (commitments s1 ''u1'') ''commitment_1'')
     (delete_commitment sample_str_of (sample_store None) ''u1'' ''commitment_1''
        ''2025-11-24T09:00:00+00:00'' 1000) = Inr None
   \<and> map_sum id (\<lambda>s2. map_of (commitments s2 ''u1'') ''commitment_1'')
     (delete_then_restore sample_str_of (sample_store None) ''u1'' ''commitment_1''
        ''2025-11-24T09:00:00+00:00'' 1000
        ''2025-11-24T09:01:00+00:00'' ''2025-11-24T09:01:00+00:00'' 1060) = Inl Http_400"
  by (simp add: delete_then_restore_def delete_commitment_def restore_deleted_commitment_def
        backup_to_redis_def get_commitment_by_field_def sample_store_def empty_store_def
        sample_commitment_def Let_def)

text \<open>
  C8, amended. When Redis is configured and reachable, the commitment is stored under
  its own id, and the restore comes within the 24 hours the backup lives, delete followed
  by restore succeeds and the document stored under the same id is the backed-up one
  with \<open>restored_at\<close> and \<open>updated_at\<close> set to the new timestamps,
  \<open>completed = false\<close> and \<open>status = "active"\<close>. The backed-up document is the
  original after a JSON round trip, so it equals the original field for field when every
  value is a JSON value. No other document changes, and the backup key is gone after the
  restore.
\<close>

theorem delete_then_restore_document:
  assumes "redis_client s = Some r" "reachable r"
    and "get_commitment_by_field s user cid = Some (cid, c)"
    and "now' < now + 86400"
  shows "\<exists>s2. delete_then_restore str_of s user cid deleted_at now restored_at updated_at now'
                = Inr s2
            \<and> map_of (commitments s2 user) cid =
                Some ((json_roundtrip str_of c)
                        (''restored_at'' \<mapsto> PStr restored_at, ''updated_at'' \<mapsto> PStr updated_at,
                         ''completed'' \<mapsto> PBool False, ''status'' \<mapsto> PStr ''active''))
            \<and> ((\<forall>v \<in> ran c. json_native v) \<longrightarrow>
                 map_of (commitments s2 user) cid =
                   Some (c(''restored_at'' \<mapsto> PStr restored_at, ''updated_at'' \<mapsto> PStr updated_at,
                           ''completed'' \<mapsto> PBool False, ''status'' \<mapsto> PStr ''active'')))
            \<and> (\<forall>k. k \<noteq> cid \<longrightarrow> map_of (commitments s2 user) k = map_of (commitments s user) k)
            \<and> (\<forall>u. u \<noteq> user \<longrightarrow> commitments s2 u = commitments s u)
            \<and> (\<forall>t. case redis_client s2 of
                      None \<Rightarrow> False
                    | Some r2 \<Rightarrow> redis_get r2 t (shadow_key user cid) = None)"
proof -
  let ?item = "\<lparr>si_commitment_id = cid, si_user_id = user,
                si_data = json_roundtrip str_of c, si_deleted_at = deleted_at\<rparr>"
  let ?r1 = "setex r (shadow_key user cid) 86400 now ?item"
  let ?s1 = "s\<lparr>redis_client := Some ?r1,
               commitments := (commitments s)(user := AList.delete cid (commitments s user))\<rparr>"
  let ?doc = "(json_roundtrip str_of c)
                (''restored_at'' \<mapsto> PStr restored_at, ''updated_at'' \<mapsto> PStr updated_at,
                 ''completed'' \<mapsto> PBool False, ''status'' \<mapsto> PStr ''active'')"
  let ?s2 = "?s1\<lparr>commitments := (commitments ?s1)
                  (user := AList.update cid ?doc (commitments ?s1 user)),
                redis_client := Some (redis_delete ?r1 (shadow_key user cid))\<rparr>"
  have del: "delete_commitment str_of s user cid deleted_at now = Inr ?s1"
    by (rule delete_commitment_backed_up [OF assms(1,2,3)])
  have reach: "reachable ?r1" using assms(2) by (simp add: setex_def)
  have got: "redis_get ?r1 now' (shadow_key user cid) = Some ?item"
    by (rule redis_get_setex [OF assms(4)])
  have res: "restore_deleted_commitment ?s1 user cid restored_at updated_at now' = Inr ?s2"
    using reach got by (simp add: restore_deleted_commitment_def Let_def)
  have both: "delete_then_restore str_of s user cid deleted_at now restored_at updated_at now'
                = Inr ?s2"
    unfolding delete_then_restore_def del using res by simp
  have doc: "map_of (commitments ?s2 user) cid = Some ?doc"
    by (simp add: update_conv')
  have native: "map_of (commitments ?s2 user) cid =
                   Some (c(''restored_at'' \<mapsto> PStr restored_at, ''updated_at'' \<mapsto> PStr updated_at,
                           ''completed'' \<mapsto> PBool False, ''status'' \<mapsto> PStr ''active''))"
    if "\<forall>v \<in> ran c. json_native v"
    using doc by (simp only: json_roundtrip_native [OF that])
  have others: "map_of (commitments ?s2 user) k = map_of (commitments s user) k" if "k \<noteq> cid" for k
    using that by (simp add: update_conv' delete_conv')
  have users: "commitments ?s2 u = commitments s u" if "u \<noteq> user" for u
    using that by simp
  have gone: "case redis_client ?s2 of
                None \<Rightarrow> False
              | Some r2 \<Rightarrow> redis_get r2 t (shadow_key user cid) = None" for t
    by (simp add: redis_get_deleted)
  from both doc native others users gone show ?thesis by blast
qed

theorem delete_then_restore_document_witness:
  "map_sum id (\<lambda>s2. (map_of (commitments s2 ''u1'') ''commitment_1'',
                     map_option (\<lambda>r2. redis_get r2 1060 (shadow_key ''u1'' ''commitment_1''))
                       (redis_client s2)))
     (delete_then_restore sample_str_of (sample_store (Some \<lparr>entries = [], reachable = True\<rparr>))
        ''u1'' ''commitment_1'' ''2025-11-24T09:00:00+00:00'' 1000
        ''2025-11-24T09:01:00+00:00'' ''2025-11-24T09:01:01+00:00'' 1060)
   = Inr (Some (sample_commitment
                  (''restored_at'' \<mapsto> PStr ''2025-11-24T09:01:00+00:00'',
                   ''updated_at'' \<mapsto> PStr ''2025-11-24T09:01:01+00:00'',
                   ''completed'' \<mapsto> PBool False, ''status'' \<mapsto> PStr ''active'')),
          Some None)"
proof -
  let ?r = "\<lparr>entries = [], reachable = True\<rparr>"
  let ?s = "sample_store (Some ?r)"
  have a: "redis_client ?s = Some ?r" "reachable ?r"
    by (simp_all add: sample_store_def)
  have g: "get_commitment_by_field ?s ''u1'' ''commitment_1'' = Some (''commitment_1'', sample_commitment)"
    by (simp add: get_commitment_by_field_def sample_store_def sample_commitment_def)
  have t: "(1060::nat) < 1000 + 86400" by simp
  have n: "\<forall>v \<in> ran sample_commitment. json_native v"
  proof
    fix v assume "v \<in> ran sample_commitment"
    then obtain k where "sample_commitment k = Some v" by (auto simp: ran_def)
    then show "json_native v"
      by (auto simp: sample_commitment_def split: if_splits)
  qed
  from delete_then_restore_document [OF a g t, of sample_str_of "''2025-11-24T09:00:00+00:00''"
         "''2025-11-24T09:01:00+00:00''" "''2025-11-24T09:01:01+00:00''"] n
  obtain s2 where s2: "delete_then_restore sample_str_of ?s ''u1'' ''commitment_1''
        ''2025-11-24T09:00:00+00:00'' 1000
        ''2025-11-24T09:01:00+00:00'' ''2025-11-24T09:01:01+00:00'' 1060 = Inr s2"
     "map_of (commitments s2 ''u1'') ''commitment_1'' =
        Some (sample_commitment
                  (''restored_at'' \<mapsto> PStr ''2025-11-24T09:01:00+00:00'',
                   ''updated_at'' \<mapsto> PStr ''2025-11-24T09:01:01+00:00'',
                   ''completed'' \<mapsto> PBool False, ''status'' \<mapsto> PStr ''active''))"
     "case redis_client s2 of
                      None \<Rightarrow> False
                    | Some r2 \<Rightarrow> redis_get r2 1060 (shadow_key ''u1'' ''commitment_1'') = None"
    by blast
  from s2(3) have "map_option (\<lambda>r2. redis_get r2 1060 (shadow_key ''u1'' ''commitment_1''))
                       (redis_client s2) = Some None"
    by (cases "redis_client s2") simp_all
  with s2(1,2) show ?thesis by simp
qed


section \<open>Live deduplication\<close>


lemma list_ex_update_keep:
  assumes "list_ex P al" "P (k, v)"
  shows "list_ex P (AList.update k v al)"
  using assms by (induction al) auto







lemma check_commitment_exists_cong:
  "commitments s1 u = commitments s u \<Longrightarrow>
     check_commitment_exists s1 u mid = check_commitment_exists s u mid"
  by (simp add: check_commitment_exists_def)










end
